theory Spec2Isabelle
  imports Main "HOL-Library.AList"
begin

section \<open>Time\<close>

text \<open>
  A \<open>time.Time\<close> is an instant, counted here in nanoseconds since the zero time of Go
  (January 1, year 1, UTC); a \<open>time.Duration\<close> and an \<open>xtime.UnixNano\<close> are counts of
  nanoseconds. Instants are unbounded integers: the wrap-around of Go's 64-bit seconds
  is out of reach of any clock reading. \<open>Sub\<close> saturates as Go's does, and \<open>Truncate\<close>
  rounds down relative to the zero time and leaves the instant alone for a duration
  that is not positive.
\<close>

type_synonym Time = int

type_synonym Duration = int

type_synonym UnixNano = int

definition unixToInternal :: int where
  "unixToInternal = 62135596800 * 1000000000"

definition minDuration :: Duration where
  "minDuration = - (2 ^ 63)"

definition maxDuration :: Duration where
  "maxDuration = 2 ^ 63 - 1"

definition time_Add :: "Time \<Rightarrow> Duration \<Rightarrow> Time" where
  "time_Add t d = t + d"

definition time_Sub :: "Time \<Rightarrow> Time \<Rightarrow> Duration" where
  "time_Sub t u =
     (if t - u < minDuration then minDuration
      else if maxDuration < t - u then maxDuration
      else t - u)"

definition time_Before :: "Time \<Rightarrow> Time \<Rightarrow> bool" where
  "time_Before t u = (t < u)"

definition time_Truncate :: "Time \<Rightarrow> Duration \<Rightarrow> Time" where
  "time_Truncate t d = (if d \<le> 0 then t else t - t mod d)"

text \<open>
  Modelled from the spec: \<open>xtime.UnixNano.ToTime\<close> and \<open>xtime.ToUnixNano\<close> are not among
  the sources. The spec keys a block by its block-start time; the key is that instant as
  nanoseconds since the Unix epoch, and the two conversions are inverse to each other.
\<close>

definition ToTime :: "UnixNano \<Rightarrow> Time" where
  "ToTime u = u + unixToInternal"

definition ToUnixNano :: "Time \<Rightarrow> UnixNano" where
  "ToUnixNano t = t - unixToInternal"

text \<open>
  Modelled from the spec: \<open>OptimizedTimes\<close> is not among the sources. The buffer reports
  the block starts it evicted; the series asks for their number and for membership.
\<close>

type_synonym OptimizedTimes = "UnixNano list"

definition Contains :: "OptimizedTimes \<Rightarrow> UnixNano \<Rightarrow> bool" where
  "Contains ts t = (t \<in> set ts)"

definition Len_times :: "OptimizedTimes \<Rightarrow> int" where
  "Len_times ts = int (length ts)"

section \<open>Data model\<close>

datatype bootstrapState = bootstrapNotStarted | bootstrapped

datatype error =
    ErrSeriesAllDatapointsExpired
  | errSeriesAlreadyBootstrapped
  | errSeriesNotBootstrapped
  | errBlockStateSnapshotNotBootstrapped
  | errExternal string

text \<open>
  What ends a call without a return: the logger's \<open>Fatal\<close> (it exits the process) and a
  method call on a nil interface value.
\<close>

datatype abort = LoggerFatal | NilPointerDereference

text \<open>
  Modelled from the spec: the cache policy's declaration is not among the sources. The
  spec names four policies and calls any other value a fatal configuration error; the
  Go type is an unsigned integer, so other values exist.
\<close>

datatype CachePolicy =
    CacheNone | CacheAll | CacheRecentlyRead | CacheLRU | CacheUnhandled nat

datatype WriteType = WarmWrite | ColdWrite

datatype FlushOutcome =
    FlushOutcomeErr | FlushOutcomeBlockDoesNotExist | FlushOutcomeFlushedToDisk

type_synonym ID = string

type_synonym Tags = "(string \<times> string) list"

type_synonym Segment = string

type_synonym Context = nat

type_synonym nsContext = string

text \<open>
  Modelled from the spec: \<open>ident.ID.Equal\<close> is not among the sources. Two identities
  match when their bytes are the same; the identity of a closed series is nil and
  matches no identifier.
\<close>

definition Equal :: "ID \<Rightarrow> ID option \<Rightarrow> bool" where
  "Equal i j = (j = Some i)"

text \<open>
  Modelled from the spec: \<open>block.DatabaseBlock\<close> is not among the sources. A block is a
  closable container for one series and one block start, tagged with whether it was
  reconstructed from disk, its last-read time and whether it has a pending merge
  target. \<open>ResetFromDisk\<close> readies a pooled block for data read from disk and marks it
  retrieved from disk.
\<close>

record DatabaseBlock =
  StartTime :: Time
  blockSize :: Duration
  segment :: Segment
  seriesID :: "ID option"
  WasRetrievedFromDisk :: bool
  LastReadTime :: Time
  HasMergeTarget :: bool
  onEvicted :: "nat option"

definition ResetFromDisk ::
  "Time \<Rightarrow> Duration \<Rightarrow> Segment \<Rightarrow> ID option \<Rightarrow> nsContext \<Rightarrow> DatabaseBlock \<Rightarrow> DatabaseBlock" where
  "ResetFromDisk start bsize seg sid nsCtx b =
     b\<lparr>StartTime := start, blockSize := bsize, segment := seg, seriesID := sid,
       WasRetrievedFromDisk := True\<rparr>"

definition SetLastReadTime :: "Time \<Rightarrow> DatabaseBlock \<Rightarrow> DatabaseBlock" where
  "SetLastReadTime t b = b\<lparr>LastReadTime := t\<rparr>"

definition SetOnEvictedFromWiredList :: "nat option \<Rightarrow> DatabaseBlock \<Rightarrow> DatabaseBlock" where
  "SetOnEvictedFromWiredList cb b = b\<lparr>onEvicted := cb\<rparr>"

text \<open>
  What the series does to objects it does not own the code of: closing a block, handing
  a block to the Wired List, logging an invariant violation, putting itself back into
  its pool. Every operation returns the list of these it performed, in order.
\<close>

datatype effect =
    BlockClose DatabaseBlock
  | WiredListBlockingUpdate DatabaseBlock
  | InvariantViolationLogged ID Time
  | SeriesPoolPut

text \<open>
  Modelled from the spec: \<open>block.DatabaseSeriesBlocks\<close> is not among the sources. The
  Block Cache is a mapping from block start to block with unique keys: insert, point
  lookup, full enumeration, removal by time, \<open>RemoveAll\<close> (closes every contained block)
  and bulk reset. It is an association list, so that the enumeration has an order; a
  well-formed cache has distinct keys.
\<close>

type_synonym DatabaseSeriesBlocks = "(UnixNano \<times> DatabaseBlock) list"

definition AddBlock :: "DatabaseBlock \<Rightarrow> DatabaseSeriesBlocks \<Rightarrow> DatabaseSeriesBlocks" where
  "AddBlock b c = AList.update (ToUnixNano (StartTime b)) b c"

definition BlockAt :: "DatabaseSeriesBlocks \<Rightarrow> Time \<Rightarrow> DatabaseBlock option" where
  "BlockAt c t = map_of c (ToUnixNano t)"

definition AllBlocks :: "DatabaseSeriesBlocks \<Rightarrow> (UnixNano \<times> DatabaseBlock) list" where
  "AllBlocks c = c"

definition RemoveBlockAt :: "Time \<Rightarrow> DatabaseSeriesBlocks \<Rightarrow> DatabaseSeriesBlocks" where
  "RemoveBlockAt t c = AList.delete (ToUnixNano t) c"

definition RemoveAll :: "DatabaseSeriesBlocks \<Rightarrow> DatabaseSeriesBlocks \<times> effect list" where
  "RemoveAll c = ([], map (\<lambda>(k, b). BlockClose b) c)"

definition Len_blocks :: "DatabaseSeriesBlocks \<Rightarrow> int" where
  "Len_blocks c = int (length c)"

definition Reset_blocks :: "DatabaseSeriesBlocks \<Rightarrow> DatabaseSeriesBlocks" where
  "Reset_blocks c = []"

text \<open>
  Modelled from the spec: the block-state snapshot's types are not among the sources. It
  maps a block start to its flush state and may be wrapped as not yet bootstrapped. A Go
  map gives the zero value at a missing key.
\<close>

record BlockState =
  WarmRetrievable :: bool
  ColdVersion :: int

record BootstrappedBlockStateSnapshot =
  Snapshot :: "UnixNano \<rightharpoonup> BlockState"

record ShardBlockStateSnapshot =
  bootstrapped_flag :: bool
  snapshot :: BootstrappedBlockStateSnapshot

definition UnwrapValue :: "ShardBlockStateSnapshot \<Rightarrow> BootstrappedBlockStateSnapshot \<times> bool" where
  "UnwrapValue s = (snapshot s, bootstrapped_flag s)"

definition Snapshot_at :: "BootstrappedBlockStateSnapshot \<Rightarrow> UnixNano \<Rightarrow> BlockState" where
  "Snapshot_at m k =
     (case Snapshot m k of
        None \<Rightarrow> \<lparr>WarmRetrievable = False, ColdVersion = 0\<rparr>
      | Some v \<Rightarrow> v)"

text \<open>
  Modelled from the spec: the options' declarations are not among the sources. The
  series consumes a retention policy, a cache policy and an optional Wired List. The
  clock's reading and the block the pool hands out are arguments of the operations
  that ask for them.
\<close>

record RetentionOptions =
  RetentionPeriod :: Duration
  BlockSize :: Duration
  BlockDataExpiryAfterNotAccessedPeriod :: Duration

record Options =
  RetentionOpts :: RetentionOptions
  CachePolicy_of :: CachePolicy
  WiredList :: "nat option"

record TickStatus =
  ActiveBlocks :: int
  WiredBlocks :: int
  UnwiredBlocks :: int
  PendingMergeBlocks :: int

record TickResult = TickStatus +
  MadeExpiredBlocks :: int
  MadeUnwiredBlocks :: int
  MergedOutOfOrderBlocks :: int
  EvictedBuckets :: int

record updateBlocksResult = TickStatus +
  madeExpiredBlocks :: int
  madeUnwiredBlocks :: int

record BootstrapResult =
  NumBlocksMovedToBuffer :: int

record LoadOptions =
  Bootstrap :: bool

record LoadResult =
  Bootstrap_result :: BootstrapResult

text \<open>
  Modelled from the spec: the Write Buffer (\<open>databaseBuffer\<close>) is not among the sources.
  The series holds it through an interface; the interface's methods are a record of
  functions over the buffer's state \<open>'b\<close>, which the series stores. The persistence
  function is \<open>persistFn(id, tags, segment) -> error\<close>.
\<close>

type_synonym DataFn = "ID \<Rightarrow> Tags \<Rightarrow> Segment \<Rightarrow> error option"

record bufferTickResult =
  mergedOutOfOrderBlocks :: int
  evictedBucketTimes :: OptimizedTimes

record bufferStats =
  wiredBlocks :: int

record 'b databaseBuffer =
  buffer_Tick :: "ShardBlockStateSnapshot \<Rightarrow> nsContext \<Rightarrow> 'b \<Rightarrow> bufferTickResult \<times> 'b"
  buffer_Stats :: "'b \<Rightarrow> bufferStats"
  buffer_Load :: "DatabaseBlock \<Rightarrow> WriteType \<Rightarrow> 'b \<Rightarrow> 'b"
  buffer_WarmFlush ::
    "Context \<Rightarrow> Time \<Rightarrow> ID option \<Rightarrow> Tags \<Rightarrow> DataFn \<Rightarrow> nsContext \<Rightarrow> 'b
      \<Rightarrow> (FlushOutcome \<times> error option) \<times> 'b"
  buffer_Snapshot ::
    "Context \<Rightarrow> Time \<Rightarrow> ID option \<Rightarrow> Tags \<Rightarrow> DataFn \<Rightarrow> nsContext \<Rightarrow> 'b
      \<Rightarrow> error option \<times> 'b"
  buffer_Reset :: "ID option \<Rightarrow> Options \<Rightarrow> 'b \<Rightarrow> 'b"

text \<open>
  The series. Its lock is not a field of the model: every method takes the lock for its
  whole body, so a method is one step from a series to a series. The block retriever
  and the two callbacks are opaque handles; \<open>None\<close> stands for nil, also for the
  identity of a closed series and for a series that has no pool.
\<close>

record 'b dbSeries =
  opts :: Options
  id_series :: "ID option"
  tags :: Tags
  buffer :: 'b
  cachedBlocks :: DatabaseSeriesBlocks
  bs :: bootstrapState
  blockRetriever :: "nat option"
  onRetrieveBlock :: "nat option"
  blockOnEvictedFromWiredList :: "nat option"
  pool :: "nat option"

section \<open>Tick\<close>

text \<open>
  The unwiring decision of \<open>updateBlocksWithLock\<close> for one block that did not expire
  under a policy other than \<open>CacheAll\<close>: the value of \<open>shouldUnwire\<close>, or the logger's
  \<open>Fatal\<close> in the switch's default case.
\<close>

definition shouldUnwire ::
  "Time \<Rightarrow> CachePolicy \<Rightarrow> Duration \<Rightarrow> ShardBlockStateSnapshot \<Rightarrow> UnixNano \<Rightarrow> DatabaseBlock
    \<Rightarrow> abort + bool" where
  "shouldUnwire now cachePolicy wiredTimeout blockStates startNano currBlock =
     (case UnwrapValue blockStates of (blockStatesSnapshot, isBootstrapped) \<Rightarrow>
        if isBootstrapped then
          (if WarmRetrievable (Snapshot_at blockStatesSnapshot startNano) then
             (case cachePolicy of
                CacheNone \<Rightarrow> Inr True
              | CacheRecentlyRead \<Rightarrow>
                  (let sinceLastRead = time_Sub now (LastReadTime currBlock)
                   in Inr (wiredTimeout \<le> sinceLastRead))
              | CacheLRU \<Rightarrow> Inr (\<not> WasRetrievedFromDisk currBlock)
              | _ \<Rightarrow> Inl LoggerFatal)
           else Inr False)
        else Inr False)"

text \<open>
  One turn of the loop of \<open>updateBlocksWithLock\<close>: the result so far, the Block Cache
  and the effects so far go in and come out.
\<close>

definition updateBlock ::
  "Time \<Rightarrow> CachePolicy \<Rightarrow> Time \<Rightarrow> Duration \<Rightarrow> ShardBlockStateSnapshot \<Rightarrow> OptimizedTimes
    \<Rightarrow> UnixNano \<Rightarrow> DatabaseBlock
    \<Rightarrow> updateBlocksResult \<times> DatabaseSeriesBlocks \<times> effect list
    \<Rightarrow> abort + (updateBlocksResult \<times> DatabaseSeriesBlocks \<times> effect list)" where
  "updateBlock now cachePolicy expireCutoff wiredTimeout blockStates evicted startNano currBlock st =
     (case st of (result, cached, effs) \<Rightarrow>
        let start = ToTime startNano in
        if time_Before start expireCutoff \<or> Contains evicted (ToUnixNano start) then
          Inr (result\<lparr>madeExpiredBlocks := madeExpiredBlocks result + 1\<rparr>,
               RemoveBlockAt start cached,
               (if cachePolicy = CacheLRU \<and> WasRetrievedFromDisk currBlock then effs
                else effs @ [BlockClose currBlock]))
        else
          let result = result\<lparr>ActiveBlocks := ActiveBlocks result + 1\<rparr> in
          if cachePolicy = CacheAll then
            Inr (result\<lparr>WiredBlocks := WiredBlocks result + 1\<rparr>, cached, effs)
          else
            (case shouldUnwire now cachePolicy wiredTimeout blockStates startNano currBlock of
               Inl a \<Rightarrow> Inl a
             | Inr True \<Rightarrow>
                 Inr (result\<lparr>madeUnwiredBlocks := madeUnwiredBlocks result + 1,
                             UnwiredBlocks := UnwiredBlocks result + 1\<rparr>,
                      RemoveBlockAt start cached,
                      effs @ [BlockClose currBlock])
             | Inr False \<Rightarrow>
                 Inr (result\<lparr>WiredBlocks := WiredBlocks result + 1,
                             PendingMergeBlocks :=
                               (if HasMergeTarget currBlock then PendingMergeBlocks result + 1
                                else PendingMergeBlocks result)\<rparr>,
                      cached, effs)))"

fun updateBlocksLoop ::
  "Time \<Rightarrow> CachePolicy \<Rightarrow> Time \<Rightarrow> Duration \<Rightarrow> ShardBlockStateSnapshot \<Rightarrow> OptimizedTimes
    \<Rightarrow> (UnixNano \<times> DatabaseBlock) list
    \<Rightarrow> updateBlocksResult \<times> DatabaseSeriesBlocks \<times> effect list
    \<Rightarrow> abort + (updateBlocksResult \<times> DatabaseSeriesBlocks \<times> effect list)" where
  "updateBlocksLoop now cachePolicy expireCutoff wiredTimeout blockStates evicted [] st = Inr st"
| "updateBlocksLoop now cachePolicy expireCutoff wiredTimeout blockStates evicted ((startNano, currBlock) # rest) st =
     (case updateBlock now cachePolicy expireCutoff wiredTimeout blockStates evicted startNano currBlock st of
        Inl a \<Rightarrow> Inl a
      | Inr st' \<Rightarrow> updateBlocksLoop now cachePolicy expireCutoff wiredTimeout blockStates evicted rest st')"

definition updateBlocksWithLock ::
  "'b databaseBuffer \<Rightarrow> Time \<Rightarrow> ShardBlockStateSnapshot \<Rightarrow> OptimizedTimes \<Rightarrow> 'b dbSeries
    \<Rightarrow> abort + ((updateBlocksResult \<times> error option) \<times> 'b dbSeries \<times> effect list)" where
  "updateBlocksWithLock ops now blockStates evicted s =
     (let result = \<lparr>ActiveBlocks = 0, WiredBlocks = 0, UnwiredBlocks = 0, PendingMergeBlocks = 0,
                    madeExpiredBlocks = 0, madeUnwiredBlocks = 0\<rparr>;
          ropts = RetentionOpts (opts s);
          cachePolicy = CachePolicy_of (opts s);
          expireCutoff = time_Truncate (time_Add now (- RetentionPeriod ropts)) (BlockSize ropts);
          wiredTimeout = BlockDataExpiryAfterNotAccessedPeriod ropts
      in case updateBlocksLoop now cachePolicy expireCutoff wiredTimeout blockStates evicted
                (AllBlocks (cachedBlocks s)) (result, cachedBlocks s, []) of
           Inl a \<Rightarrow> Inl a
         | Inr (result, cached, effs) \<Rightarrow>
             let bufferStats = buffer_Stats ops (buffer s);
                 result = result\<lparr>ActiveBlocks := ActiveBlocks result + wiredBlocks bufferStats\<rparr>;
                 result = result\<lparr>WiredBlocks := WiredBlocks result + wiredBlocks bufferStats\<rparr>
             in Inr ((result, None), s\<lparr>cachedBlocks := cached\<rparr>, effs))"

definition Tick ::
  "'b databaseBuffer \<Rightarrow> Time \<Rightarrow> ShardBlockStateSnapshot \<Rightarrow> nsContext \<Rightarrow> 'b dbSeries
    \<Rightarrow> abort + ((TickResult \<times> error option) \<times> 'b dbSeries \<times> effect list)" where
  "Tick ops now blockStates nsCtx s =
     (case buffer_Tick ops blockStates nsCtx (buffer s) of (bufferResult, buf) \<Rightarrow>
        let s = s\<lparr>buffer := buf\<rparr>;
            r = \<lparr>ActiveBlocks = 0, WiredBlocks = 0, UnwiredBlocks = 0, PendingMergeBlocks = 0,
                 MadeExpiredBlocks = 0, MadeUnwiredBlocks = 0,
                 MergedOutOfOrderBlocks = mergedOutOfOrderBlocks bufferResult,
                 EvictedBuckets = Len_times (evictedBucketTimes bufferResult)\<rparr>
        in (case updateBlocksWithLock ops now blockStates (evictedBucketTimes bufferResult) s of
              Inl a \<Rightarrow> Inl a
            | Inr ((update, Some err), s, effs) \<Rightarrow> Inr ((r, Some err), s, effs)
            | Inr ((update, None), s, effs) \<Rightarrow>
                (let r = r\<lparr>ActiveBlocks := ActiveBlocks update, WiredBlocks := WiredBlocks update,
                           UnwiredBlocks := UnwiredBlocks update,
                           PendingMergeBlocks := PendingMergeBlocks update\<rparr>;
                     r = r\<lparr>MadeExpiredBlocks := madeExpiredBlocks update,
                           MadeUnwiredBlocks := madeUnwiredBlocks update\<rparr>
                 in if ActiveBlocks update = 0
                    then Inr ((r, Some ErrSeriesAllDatapointsExpired), s, effs)
                    else Inr ((r, None), s, effs))))"

section \<open>Bootstrap state and load\<close>

definition IsBootstrapped :: "'b dbSeries \<Rightarrow> bool" where
  "IsBootstrapped s = (let state = bs s in state = bootstrapped)"

fun loadBlocks ::
  "'b databaseBuffer \<Rightarrow> BootstrappedBlockStateSnapshot \<Rightarrow> (UnixNano \<times> DatabaseBlock) list
    \<Rightarrow> 'b \<Rightarrow> 'b" where
  "loadBlocks ops blockStates [] buf = buf"
| "loadBlocks ops blockStates ((k, block) # rest) buf =
     (let blStartNano = ToUnixNano (StartTime block);
          blState = Snapshot_at blockStates blStartNano
      in if \<not> WarmRetrievable blState
         then loadBlocks ops blockStates rest (buffer_Load ops block WarmWrite buf)
         else loadBlocks ops blockStates rest (buffer_Load ops block ColdWrite buf))"

definition loadWithLock ::
  "'b databaseBuffer \<Rightarrow> DatabaseSeriesBlocks \<Rightarrow> BootstrappedBlockStateSnapshot \<Rightarrow> 'b dbSeries
    \<Rightarrow> 'b dbSeries" where
  "loadWithLock ops bootstrappedBlocks blockStates s =
     s\<lparr>buffer := loadBlocks ops blockStates (AllBlocks bootstrappedBlocks) (buffer s)\<rparr>"

text \<open>
  The blocks handed to \<open>bootstrap\<close> and \<open>load\<close> are an interface value, which may be nil
  (\<open>None\<close>). \<open>bootstrap\<close> returns early on nil; \<open>load\<close> calls a method on it. The deferred
  function of \<open>bootstrap\<close> sets the state on every path.
\<close>

definition bootstrap ::
  "'b databaseBuffer \<Rightarrow> DatabaseSeriesBlocks option \<Rightarrow> BootstrappedBlockStateSnapshot \<Rightarrow> 'b dbSeries
    \<Rightarrow> (BootstrapResult \<times> error option) \<times> 'b dbSeries" where
  "bootstrap ops bootstrappedBlocks blockStates s =
     (let result = \<lparr>NumBlocksMovedToBuffer = 0\<rparr> in
      if bs s = bootstrapped then ((result, Some errSeriesAlreadyBootstrapped), s\<lparr>bs := bootstrapped\<rparr>)
      else
        (case bootstrappedBlocks of
           None \<Rightarrow> ((result, None), s\<lparr>bs := bootstrapped\<rparr>)
         | Some blocks \<Rightarrow>
             let s = loadWithLock ops blocks blockStates s;
                 result = result\<lparr>NumBlocksMovedToBuffer :=
                                  NumBlocksMovedToBuffer result + Len_blocks blocks\<rparr>
             in ((result, None), s\<lparr>bs := bootstrapped\<rparr>)))"

definition load ::
  "'b databaseBuffer \<Rightarrow> DatabaseSeriesBlocks option \<Rightarrow> BootstrappedBlockStateSnapshot \<Rightarrow> 'b dbSeries
    \<Rightarrow> abort + 'b dbSeries" where
  "load ops bootstrappedBlocks blockStates s =
     (case bootstrappedBlocks of
        None \<Rightarrow> Inl NilPointerDereference
      | Some blocks \<Rightarrow> Inr (loadWithLock ops blocks blockStates s))"

definition Load ::
  "'b databaseBuffer \<Rightarrow> LoadOptions \<Rightarrow> DatabaseSeriesBlocks option \<Rightarrow> BootstrappedBlockStateSnapshot
    \<Rightarrow> 'b dbSeries \<Rightarrow> abort + ((LoadResult \<times> error option) \<times> 'b dbSeries)" where
  "Load ops lopts bootstrappedBlocks blockStates s =
     (if Bootstrap lopts then
        (case bootstrap ops bootstrappedBlocks blockStates s of
           ((bsResult, err), s') \<Rightarrow> Inr ((\<lparr>Bootstrap_result = bsResult\<rparr>, err), s'))
      else
        (case load ops bootstrappedBlocks blockStates s of
           Inl a \<Rightarrow> Inl a
         | Inr s' \<Rightarrow> Inr ((\<lparr>Bootstrap_result = \<lparr>NumBlocksMovedToBuffer = 0\<rparr>\<rparr>, None), s')))"

section \<open>Retrieval bridge\<close>

definition addBlockWithLock :: "DatabaseBlock \<Rightarrow> 'b dbSeries \<Rightarrow> DatabaseBlock \<times> 'b dbSeries" where
  "addBlockWithLock b s =
     (let b = SetOnEvictedFromWiredList (blockOnEvictedFromWiredList s) b
      in (b, s\<lparr>cachedBlocks := AddBlock b (cachedBlocks s)\<rparr>))"

text \<open>
  \<open>now\<close> is the clock's reading and \<open>pooled\<close> the block the block pool hands out. The
  deferred function updates the Wired List after the lock is released, when a block was
  built and a Wired List is configured.
\<close>

definition OnRetrieveBlock ::
  "Time \<Rightarrow> DatabaseBlock \<Rightarrow> ID \<Rightarrow> Tags \<Rightarrow> Time \<Rightarrow> Segment \<Rightarrow> nsContext \<Rightarrow> 'b dbSeries
    \<Rightarrow> 'b dbSeries \<times> effect list" where
  "OnRetrieveBlock now pooled i tagsIter startTime seg nsCtx s =
     (if \<not> Equal i (id_series s) then (s, [])
      else
        let b = pooled;
            bsize = BlockSize (RetentionOpts (opts s));
            b = ResetFromDisk startTime bsize seg (id_series s) nsCtx b;
            b = SetLastReadTime now b
        in case addBlockWithLock b s of (b, s) \<Rightarrow>
             let list = WiredList (opts s)
             in (s, if list \<noteq> None then [WiredListBlockingUpdate b] else []))"

definition OnEvictedFromWiredList ::
  "ID \<Rightarrow> Time \<Rightarrow> 'b dbSeries \<Rightarrow> 'b dbSeries \<times> effect list" where
  "OnEvictedFromWiredList i blockStart s =
     (if \<not> Equal i (id_series s) then (s, [])
      else
        (case BlockAt (cachedBlocks s) blockStart of
           Some block \<Rightarrow>
             if \<not> WasRetrievedFromDisk block then (s, [InvariantViolationLogged i blockStart])
             else (s\<lparr>cachedBlocks := RemoveBlockAt blockStart (cachedBlocks s)\<rparr>, [])
         | None \<Rightarrow> (s, [])))"

section \<open>Flush, snapshot, close and reset\<close>

definition WarmFlush ::
  "'b databaseBuffer \<Rightarrow> Context \<Rightarrow> Time \<Rightarrow> DataFn \<Rightarrow> nsContext \<Rightarrow> 'b dbSeries
    \<Rightarrow> (FlushOutcome \<times> error option) \<times> 'b dbSeries" where
  "WarmFlush ops ctx blockStart persistFn nsCtx s =
     (if bs s \<noteq> bootstrapped then ((FlushOutcomeErr, Some errSeriesNotBootstrapped), s)
      else
        (case buffer_WarmFlush ops ctx blockStart (id_series s) (tags s) persistFn nsCtx (buffer s) of
           (res, buf) \<Rightarrow> (res, s\<lparr>buffer := buf\<rparr>)))"

definition Snapshot_series ::
  "'b databaseBuffer \<Rightarrow> Context \<Rightarrow> Time \<Rightarrow> DataFn \<Rightarrow> nsContext \<Rightarrow> 'b dbSeries
    \<Rightarrow> error option \<times> 'b dbSeries" where
  "Snapshot_series ops ctx blockStart persistFn nsCtx s =
     (if bs s \<noteq> bootstrapped then (Some errSeriesNotBootstrapped, s)
      else
        (case buffer_Snapshot ops ctx blockStart (id_series s) (tags s) persistFn nsCtx (buffer s) of
           (err, buf) \<Rightarrow> (err, s\<lparr>buffer := buf\<rparr>)))"

definition Close :: "'b databaseBuffer \<Rightarrow> 'b dbSeries \<Rightarrow> 'b dbSeries \<times> effect list" where
  "Close ops s =
     (let s = s\<lparr>id_series := None\<rparr>;
          s = s\<lparr>tags := []\<rparr>;
          (cached, effs) =
            (case CachePolicy_of (opts s) of
               CacheLRU \<Rightarrow> (cachedBlocks s, [])
             | _ \<Rightarrow> RemoveAll (cachedBlocks s));
          s = s\<lparr>cachedBlocks := cached\<rparr>;
          s = s\<lparr>buffer := buffer_Reset ops None (opts s) (buffer s)\<rparr>;
          s = s\<lparr>cachedBlocks := Reset_blocks (cachedBlocks s)\<rparr>
      in (s, if pool s \<noteq> None then effs @ [SeriesPoolPut] else effs))"

definition Reset ::
  "'b databaseBuffer \<Rightarrow> ID option \<Rightarrow> Tags \<Rightarrow> nat option \<Rightarrow> nat option \<Rightarrow> nat option \<Rightarrow> Options
    \<Rightarrow> 'b dbSeries \<Rightarrow> 'b dbSeries" where
  "Reset ops i tgs retriever onRetrieve onEvictedFromWiredList options s =
     s\<lparr>id_series := i, tags := tgs,
       cachedBlocks := Reset_blocks (cachedBlocks s),
       buffer := buffer_Reset ops i options (buffer s),
       opts := options, bs := bootstrapNotStarted,
       blockRetriever := retriever, onRetrieveBlock := onRetrieve,
       blockOnEvictedFromWiredList := onEvictedFromWiredList\<rparr>"

section \<open>The spec's words for expiry and unwiring\<close>

text \<open>
  The spec's words for step 2 of Tick: a block expires if its start precedes
  \<open>now - retentionPeriod\<close>, truncated to block-size boundaries, or if the buffer reported
  its start as evicted this cycle.
\<close>

definition spec_expires :: "Time \<Rightarrow> RetentionOptions \<Rightarrow> OptimizedTimes \<Rightarrow> UnixNano \<Rightarrow> bool" where
  "spec_expires now ropts evicted k =
     (ToTime k < time_Truncate (now - RetentionPeriod ropts) (BlockSize ropts) \<or> k \<in> set evicted)"

text \<open>
  The spec's words for step 4 of Tick: an unwiring decision is made only if the
  block-state snapshot is marked bootstrapped and the block start's \<open>WarmRetrievable\<close> flag
  is true; given that, \<open>CacheNone\<close> always unwires, \<open>CacheRecentlyRead\<close> unwires a block not
  read for the not-accessed expiry period, and \<open>CacheLRU\<close> unwires a block that was not
  retrieved from disk.
\<close>

definition spec_unwires ::
  "Time \<Rightarrow> Options \<Rightarrow> ShardBlockStateSnapshot \<Rightarrow> UnixNano \<Rightarrow> DatabaseBlock \<Rightarrow> bool" where
  "spec_unwires now os blockStates k b =
     (bootstrapped_flag blockStates \<and> WarmRetrievable (Snapshot_at (snapshot blockStates) k) \<and>
      (case CachePolicy_of os of
         CacheNone \<Rightarrow> True
       | CacheRecentlyRead \<Rightarrow>
           BlockDataExpiryAfterNotAccessedPeriod (RetentionOpts os) \<le> time_Sub now (LastReadTime b)
       | CacheLRU \<Rightarrow> \<not> WasRetrievedFromDisk b
       | _ \<Rightarrow> False))"

text \<open>
  The keys a pass over the entries \<open>xs\<close> removes from the Block Cache, and the entries
  whose block the pass closes.
\<close>

definition removedKeys ::
  "Time \<Rightarrow> Options \<Rightarrow> ShardBlockStateSnapshot \<Rightarrow> OptimizedTimes \<Rightarrow> (UnixNano \<times> DatabaseBlock) list \<Rightarrow> UnixNano set" where
  "removedKeys now os bss ev xs =
     fst ` {x \<in> set xs. spec_expires now (RetentionOpts os) ev (fst x) \<or> spec_unwires now os bss (fst x) (snd x)}"

definition closedBy ::
  "Time \<Rightarrow> Options \<Rightarrow> ShardBlockStateSnapshot \<Rightarrow> OptimizedTimes \<Rightarrow> UnixNano \<times> DatabaseBlock \<Rightarrow> bool" where
  "closedBy now os bss ev x =
     (if spec_expires now (RetentionOpts os) ev (fst x)
      then \<not> (CachePolicy_of os = CacheLRU \<and> WasRetrievedFromDisk (snd x))
      else spec_unwires now os bss (fst x) (snd x))"

section \<open>Concrete inputs\<close>

text \<open>
  A buffer that records the blocks loaded into it, reports fixed evicted block starts
  and a fixed wired-block count, and hands one segment to the persistence function on a
  flush or a snapshot; a series with the retention of the spec's concrete scenario
  (block size 2h, retention 48h, not-accessed expiry 1h).
\<close>

definition hour :: Duration where
  "hour = 3600 * 1000000000"

definition stubBuffer :: "OptimizedTimes \<Rightarrow> int \<Rightarrow> (DatabaseBlock \<times> WriteType) list databaseBuffer" where
  "stubBuffer evicted wired =
     \<lparr>buffer_Tick = (\<lambda>bss ns buf. (\<lparr>mergedOutOfOrderBlocks = 0, evictedBucketTimes = evicted\<rparr>, buf)),
      buffer_Stats = (\<lambda>buf. \<lparr>wiredBlocks = wired\<rparr>),
      buffer_Load = (\<lambda>b wt buf. buf @ [(b, wt)]),
      buffer_WarmFlush = (\<lambda>ctx start i tgs persistFn ns buf.
         (case i of
            None \<Rightarrow> ((FlushOutcomeErr, None), buf)
          | Some i' \<Rightarrow>
              (case persistFn i' tgs ''data'' of
                 None \<Rightarrow> ((FlushOutcomeFlushedToDisk, None), buf)
               | Some e \<Rightarrow> ((FlushOutcomeErr, Some e), buf)))),
      buffer_Snapshot = (\<lambda>ctx start i tgs persistFn ns buf.
         (case i of None \<Rightarrow> (None, buf) | Some i' \<Rightarrow> (persistFn i' tgs ''data'', buf))),
      buffer_Reset = (\<lambda>i os buf. [])\<rparr>"

definition exampleOptions :: "CachePolicy \<Rightarrow> Options" where
  "exampleOptions p =
     \<lparr>RetentionOpts = \<lparr>RetentionPeriod = 48 * hour, BlockSize = 2 * hour,
                       BlockDataExpiryAfterNotAccessedPeriod = hour\<rparr>,
      CachePolicy_of = p, WiredList = Some 0\<rparr>"

definition exampleBlock :: "UnixNano \<Rightarrow> bool \<Rightarrow> UnixNano \<Rightarrow> DatabaseBlock" where
  "exampleBlock start fromDisk lastRead =
     \<lparr>StartTime = ToTime start, blockSize = 2 * hour, segment = ''data'', seriesID = Some ''cpu'',
      WasRetrievedFromDisk = fromDisk, LastReadTime = ToTime lastRead, HasMergeTarget = False,
      onEvicted = None\<rparr>"

definition exampleSeries ::
  "CachePolicy \<Rightarrow> DatabaseSeriesBlocks \<Rightarrow> bootstrapState \<Rightarrow> (DatabaseBlock \<times> WriteType) list dbSeries" where
  "exampleSeries p blocks state =
     \<lparr>opts = exampleOptions p, id_series = Some ''cpu'', tags = [(''host'', ''a'')], buffer = [],
      cachedBlocks = blocks, bs = state, blockRetriever = None, onRetrieveBlock = None,
      blockOnEvictedFromWiredList = Some 7, pool = Some 1\<rparr>"

definition exampleStates :: "bool \<Rightarrow> (UnixNano \<rightharpoonup> BlockState) \<Rightarrow> ShardBlockStateSnapshot" where
  "exampleStates flag m = \<lparr>bootstrapped_flag = flag, snapshot = \<lparr>Snapshot = m\<rparr>\<rparr>"

section \<open>The pass over the Block Cache\<close>

lemma ToUnixNano_ToTime [simp]: "ToUnixNano (ToTime u) = u"
  by (simp add: ToUnixNano_def ToTime_def)

lemma updateBlock_expired:
  assumes "spec_expires now (RetentionOpts os) ev k"
  shows "updateBlock now (CachePolicy_of os)
           (time_Truncate (time_Add now (- RetentionPeriod (RetentionOpts os))) (BlockSize (RetentionOpts os)))
           (BlockDataExpiryAfterNotAccessedPeriod (RetentionOpts os)) bss ev k b (res, c, effs) =
         Inr (res\<lparr>madeExpiredBlocks := madeExpiredBlocks res + 1\<rparr>, AList.delete k c,
              if CachePolicy_of os = CacheLRU \<and> WasRetrievedFromDisk b then effs else effs @ [BlockClose b])"
  using assms
  by (simp add: updateBlock_def spec_expires_def time_Before_def time_Add_def Contains_def RemoveBlockAt_def)

lemma updateBlock_kept:
  assumes "\<not> spec_expires now (RetentionOpts os) ev k"
    and "updateBlock now (CachePolicy_of os)
           (time_Truncate (time_Add now (- RetentionPeriod (RetentionOpts os))) (BlockSize (RetentionOpts os)))
           (BlockDataExpiryAfterNotAccessedPeriod (RetentionOpts os)) bss ev k b (res, c, effs) = Inr st'"
  shows "st' =
         (if spec_unwires now os bss k b
          then (res\<lparr>ActiveBlocks := ActiveBlocks res + 1,
                    madeUnwiredBlocks := madeUnwiredBlocks res + 1,
                    UnwiredBlocks := UnwiredBlocks res + 1\<rparr>, AList.delete k c, effs @ [BlockClose b])
          else (res\<lparr>ActiveBlocks := ActiveBlocks res + 1,
                    WiredBlocks := WiredBlocks res + 1,
                    PendingMergeBlocks :=
                      (if CachePolicy_of os \<noteq> CacheAll \<and> HasMergeTarget b
                       then PendingMergeBlocks res + 1 else PendingMergeBlocks res)\<rparr>, c, effs))"
  using assms
  by (auto simp: updateBlock_def spec_expires_def spec_unwires_def time_Before_def time_Add_def
      Contains_def RemoveBlockAt_def shouldUnwire_def UnwrapValue_def Let_def
      split: if_splits CachePolicy.splits sum.splits bool.splits)

lemma removedKeys_Nil: "removedKeys now os bss ev [] = {}"
  by (simp add: removedKeys_def)

lemma removedKeys_Cons:
  "removedKeys now os bss ev (x # xs) =
     (if spec_expires now (RetentionOpts os) ev (fst x) \<or> spec_unwires now os bss (fst x) (snd x)
      then insert (fst x) (removedKeys now os bss ev xs)
      else removedKeys now os bss ev xs)"
  by (auto simp: removedKeys_def)

lemma filter_delete_keys:
  "[y\<leftarrow>AList.delete k c. fst y \<notin> R] = [y\<leftarrow>c. fst y \<notin> insert k R]"
  by (induction c) (auto simp: AList.delete_eq)

lemma loop_spec:
  assumes "pol = CachePolicy_of os"
    and "cutoff = time_Truncate (time_Add now (- RetentionPeriod (RetentionOpts os))) (BlockSize (RetentionOpts os))"
    and "wt = BlockDataExpiryAfterNotAccessedPeriod (RetentionOpts os)"
    and "updateBlocksLoop now pol cutoff wt bss ev xs (res, c, effs) = Inr (res', c', effs')"
  shows "madeExpiredBlocks res' =
           madeExpiredBlocks res + int (length [x\<leftarrow>xs. spec_expires now (RetentionOpts os) ev (fst x)])
       \<and> ActiveBlocks res' =
           ActiveBlocks res + int (length [x\<leftarrow>xs. \<not> spec_expires now (RetentionOpts os) ev (fst x)])
       \<and> madeUnwiredBlocks res' =
           madeUnwiredBlocks res + int (length [x\<leftarrow>xs. \<not> spec_expires now (RetentionOpts os) ev (fst x)
                                                  \<and> spec_unwires now os bss (fst x) (snd x)])
       \<and> UnwiredBlocks res' =
           UnwiredBlocks res + int (length [x\<leftarrow>xs. \<not> spec_expires now (RetentionOpts os) ev (fst x)
                                                  \<and> spec_unwires now os bss (fst x) (snd x)])
       \<and> WiredBlocks res' =
           WiredBlocks res + int (length [x\<leftarrow>xs. \<not> spec_expires now (RetentionOpts os) ev (fst x)
                                                  \<and> \<not> spec_unwires now os bss (fst x) (snd x)])
       \<and> PendingMergeBlocks res' =
           PendingMergeBlocks res + int (length [x\<leftarrow>xs. \<not> spec_expires now (RetentionOpts os) ev (fst x)
                                                  \<and> \<not> spec_unwires now os bss (fst x) (snd x)
                                                  \<and> CachePolicy_of os \<noteq> CacheAll
                                                  \<and> HasMergeTarget (snd x)])
       \<and> c' = [y\<leftarrow>c. fst y \<notin> removedKeys now os bss ev xs]
       \<and> effs' = effs @ map (\<lambda>x. BlockClose (snd x)) [x\<leftarrow>xs. closedBy now os bss ev x]"
  using assms(4)
proof (induction xs arbitrary: res c effs)
  case Nil
  then show ?case by (simp add: removedKeys_Nil)
next
  case (Cons x xs)
  obtain k b where x: "x = (k, b)" by (cases x)
  show ?case
  proof (cases "spec_expires now (RetentionOpts os) ev k")
    case True
    from Cons.prems have
      "updateBlocksLoop now pol cutoff wt bss ev xs
         (res\<lparr>madeExpiredBlocks := madeExpiredBlocks res + 1\<rparr>, AList.delete k c,
          if CachePolicy_of os = CacheLRU \<and> WasRetrievedFromDisk b then effs else effs @ [BlockClose b])
       = Inr (res', c', effs')"
      by (simp add: x assms(1-3) updateBlock_expired [OF True])
    from Cons.IH [OF this] True show ?thesis
      by (simp add: x removedKeys_Cons filter_delete_keys closedBy_def)
  next
    case False
    from Cons.prems obtain st1 where
      st1: "updateBlock now pol cutoff wt bss ev k b (res, c, effs) = Inr st1"
      and rest: "updateBlocksLoop now pol cutoff wt bss ev xs st1 = Inr (res', c', effs')"
      by (auto simp: x split: sum.splits)
    note k = updateBlock_kept [OF False st1 [unfolded assms(1-3)]]
    show ?thesis
    proof (cases "spec_unwires now os bss k b")
      case True
      with k rest have
        "updateBlocksLoop now pol cutoff wt bss ev xs
           (res\<lparr>ActiveBlocks := ActiveBlocks res + 1,
                madeUnwiredBlocks := madeUnwiredBlocks res + 1,
                UnwiredBlocks := UnwiredBlocks res + 1\<rparr>, AList.delete k c, effs @ [BlockClose b])
         = Inr (res', c', effs')" by simp
      from Cons.IH [OF this] True False show ?thesis
        by (simp add: x removedKeys_Cons filter_delete_keys closedBy_def)
    next
      case F2: False
      with k rest have
        "updateBlocksLoop now pol cutoff wt bss ev xs
           (res\<lparr>ActiveBlocks := ActiveBlocks res + 1,
                    WiredBlocks := WiredBlocks res + 1,
                    PendingMergeBlocks :=
                      (if CachePolicy_of os \<noteq> CacheAll \<and> HasMergeTarget b
                       then PendingMergeBlocks res + 1 else PendingMergeBlocks res)\<rparr>, c, effs)
         = Inr (res', c', effs')" by simp
      from Cons.IH [OF this] F2 False show ?thesis
        by (simp add: x removedKeys_Cons filter_delete_keys closedBy_def)
    qed
  qed
qed

text \<open>
  A turn, and so a pass, ends without a result only in the default case of the switch
  over the cache policy, which a block that did not expire reaches when the snapshot is
  bootstrapped and reports its start warm retrievable.
\<close>

lemma updateBlock_Inl:
  assumes "updateBlock now pol cutoff wt bss ev k b st = Inl a"
  shows "a = LoggerFatal \<and> (\<exists>n. pol = CacheUnhandled n) \<and> \<not> (ToTime k < cutoff \<or> k \<in> set ev)
         \<and> bootstrapped_flag bss \<and> WarmRetrievable (Snapshot_at (snapshot bss) k)"
  using assms
  by (cases st) (auto simp: updateBlock_def time_Before_def Contains_def shouldUnwire_def
        UnwrapValue_def Let_def split: if_splits CachePolicy.splits sum.splits bool.splits)

lemma updateBlocksLoop_Inl:
  assumes "updateBlocksLoop now pol cutoff wt bss ev xs st = Inl a"
  shows "a = LoggerFatal \<and> (\<exists>n. pol = CacheUnhandled n)
         \<and> (\<exists>x\<in>set xs. \<not> (ToTime (fst x) < cutoff \<or> fst x \<in> set ev)
               \<and> bootstrapped_flag bss \<and> WarmRetrievable (Snapshot_at (snapshot bss) (fst x)))"
  using assms
proof (induction xs arbitrary: st)
  case Nil
  then show ?case by simp
next
  case (Cons x xs)
  obtain k b where x: "x = (k, b)" by (cases x)
  show ?case
  proof (cases "updateBlock now pol cutoff wt bss ev k b st")
    case (Inl a')
    with Cons.prems have "a' = a" by (simp add: x)
    with updateBlock_Inl [OF Inl] show ?thesis by (simp add: x)
  next
    case (Inr st1)
    with Cons.prems have "updateBlocksLoop now pol cutoff wt bss ev xs st1 = Inl a"
      by (simp add: x)
    from Cons.IH [OF this] show ?thesis by auto
  qed
qed

section \<open>What Tick returns\<close>

lemma updateBlocksWithLock_Inr:
  assumes "updateBlocksWithLock ops now bss ev s = Inr ((u, err), s', effs)"
  shows "err = None
       \<and> s' = s\<lparr>cachedBlocks := [y\<leftarrow>cachedBlocks s. fst y \<notin> removedKeys now (opts s) bss ev (cachedBlocks s)]\<rparr>
       \<and> effs = map (\<lambda>x. BlockClose (snd x)) [x\<leftarrow>cachedBlocks s. closedBy now (opts s) bss ev x]
       \<and> madeExpiredBlocks u =
           int (length [x\<leftarrow>cachedBlocks s. spec_expires now (RetentionOpts (opts s)) ev (fst x)])
       \<and> madeUnwiredBlocks u =
           int (length [x\<leftarrow>cachedBlocks s. \<not> spec_expires now (RetentionOpts (opts s)) ev (fst x)
                                          \<and> spec_unwires now (opts s) bss (fst x) (snd x)])
       \<and> UnwiredBlocks u =
           int (length [x\<leftarrow>cachedBlocks s. \<not> spec_expires now (RetentionOpts (opts s)) ev (fst x)
                                          \<and> spec_unwires now (opts s) bss (fst x) (snd x)])
       \<and> ActiveBlocks u =
           int (length [x\<leftarrow>cachedBlocks s. \<not> spec_expires now (RetentionOpts (opts s)) ev (fst x)])
           + wiredBlocks (buffer_Stats ops (buffer s))
       \<and> WiredBlocks u =
           int (length [x\<leftarrow>cachedBlocks s. \<not> spec_expires now (RetentionOpts (opts s)) ev (fst x)
                                          \<and> \<not> spec_unwires now (opts s) bss (fst x) (snd x)])
           + wiredBlocks (buffer_Stats ops (buffer s))
       \<and> PendingMergeBlocks u =
           int (length [x\<leftarrow>cachedBlocks s. \<not> spec_expires now (RetentionOpts (opts s)) ev (fst x)
                                          \<and> \<not> spec_unwires now (opts s) bss (fst x) (snd x)
                                          \<and> CachePolicy_of (opts s) \<noteq> CacheAll
                                          \<and> HasMergeTarget (snd x)])"
proof -
  let ?res0 = "\<lparr>ActiveBlocks = 0, WiredBlocks = 0, UnwiredBlocks = 0, PendingMergeBlocks = 0,
                madeExpiredBlocks = 0, madeUnwiredBlocks = 0\<rparr>"
  let ?loop = "updateBlocksLoop now (CachePolicy_of (opts s))
      (time_Truncate (time_Add now (- RetentionPeriod (RetentionOpts (opts s)))) (BlockSize (RetentionOpts (opts s))))
      (BlockDataExpiryAfterNotAccessedPeriod (RetentionOpts (opts s))) bss ev
      (cachedBlocks s) (?res0, cachedBlocks s, [])"
  from assms obtain res' c' effs' where
    loop: "?loop = Inr (res', c', effs')"
    and out: "err = None" "s' = s\<lparr>cachedBlocks := c'\<rparr>" "effs = effs'"
      "u = res'\<lparr>ActiveBlocks := ActiveBlocks res' + wiredBlocks (buffer_Stats ops (buffer s)),
               WiredBlocks := WiredBlocks res' + wiredBlocks (buffer_Stats ops (buffer s))\<rparr>"
    by (auto simp: updateBlocksWithLock_def AllBlocks_def Let_def split: sum.splits)
  from loop_spec [OF refl refl refl loop] out show ?thesis by simp
qed

lemma updateBlocksWithLock_Inl:
  assumes "updateBlocksWithLock ops now bss ev s = Inl a"
  shows "a = LoggerFatal \<and> (\<exists>n. CachePolicy_of (opts s) = CacheUnhandled n)
       \<and> (\<exists>x\<in>set (cachedBlocks s). \<not> spec_expires now (RetentionOpts (opts s)) ev (fst x)
             \<and> bootstrapped_flag bss \<and> WarmRetrievable (Snapshot_at (snapshot bss) (fst x)))"
proof -
  from assms have "updateBlocksLoop now (CachePolicy_of (opts s))
      (time_Truncate (time_Add now (- RetentionPeriod (RetentionOpts (opts s)))) (BlockSize (RetentionOpts (opts s))))
      (BlockDataExpiryAfterNotAccessedPeriod (RetentionOpts (opts s))) bss ev
      (cachedBlocks s) (\<lparr>ActiveBlocks = 0, WiredBlocks = 0, UnwiredBlocks = 0, PendingMergeBlocks = 0,
                madeExpiredBlocks = 0, madeUnwiredBlocks = 0\<rparr>, cachedBlocks s, []) = Inl a"
    by (auto simp: updateBlocksWithLock_def AllBlocks_def Let_def split: sum.splits)
  from updateBlocksLoop_Inl [OF this] show ?thesis
    by (simp add: spec_expires_def time_Add_def)
qed

lemma Tick_Inr:
  assumes bt: "buffer_Tick ops bss ns (buffer s) = (br, buf)"
    and tick: "Tick ops now bss ns s = Inr ((r, err), s', effs)"
  shows "s' = s\<lparr>buffer := buf,
                 cachedBlocks := [y\<leftarrow>cachedBlocks s.
                    fst y \<notin> removedKeys now (opts s) bss (evictedBucketTimes br) (cachedBlocks s)]\<rparr>"
    and "effs = map (\<lambda>x. BlockClose (snd x))
                  [x\<leftarrow>cachedBlocks s. closedBy now (opts s) bss (evictedBucketTimes br) x]"
    and "MadeExpiredBlocks r =
           int (length [x\<leftarrow>cachedBlocks s.
                  spec_expires now (RetentionOpts (opts s)) (evictedBucketTimes br) (fst x)])"
    and "MadeUnwiredBlocks r =
           int (length [x\<leftarrow>cachedBlocks s.
                  \<not> spec_expires now (RetentionOpts (opts s)) (evictedBucketTimes br) (fst x)
                  \<and> spec_unwires now (opts s) bss (fst x) (snd x)])"
    and "UnwiredBlocks r = MadeUnwiredBlocks r"
    and "ActiveBlocks r =
           int (length [x\<leftarrow>cachedBlocks s.
                  \<not> spec_expires now (RetentionOpts (opts s)) (evictedBucketTimes br) (fst x)])
           + wiredBlocks (buffer_Stats ops buf)"
    and "WiredBlocks r =
           int (length [x\<leftarrow>cachedBlocks s.
                  \<not> spec_expires now (RetentionOpts (opts s)) (evictedBucketTimes br) (fst x)
                  \<and> \<not> spec_unwires now (opts s) bss (fst x) (snd x)])
           + wiredBlocks (buffer_Stats ops buf)"
    and "MergedOutOfOrderBlocks r = mergedOutOfOrderBlocks br"
    and "EvictedBuckets r = int (length (evictedBucketTimes br))"
    and "err = (if ActiveBlocks r = 0 then Some ErrSeriesAllDatapointsExpired else None)"
    and "PendingMergeBlocks r =
           int (length [x\<leftarrow>cachedBlocks s.
                  \<not> spec_expires now (RetentionOpts (opts s)) (evictedBucketTimes br) (fst x)
                  \<and> \<not> spec_unwires now (opts s) bss (fst x) (snd x)
                  \<and> CachePolicy_of (opts s) \<noteq> CacheAll \<and> HasMergeTarget (snd x)])"
proof -
  from tick bt obtain u e where
    upd: "updateBlocksWithLock ops now bss (evictedBucketTimes br) (s\<lparr>buffer := buf\<rparr>)
            = Inr ((u, e), s', effs)"
    by (auto simp: Tick_def Let_def split: sum.splits option.splits if_splits)
  note post = updateBlocksWithLock_Inr [OF upd]
  from post have e: "e = None" by simp
  from tick bt upd e have
    r: "r = \<lparr>ActiveBlocks = ActiveBlocks u, WiredBlocks = WiredBlocks u,
             UnwiredBlocks = UnwiredBlocks u, PendingMergeBlocks = PendingMergeBlocks u,
             MadeExpiredBlocks = madeExpiredBlocks u, MadeUnwiredBlocks = madeUnwiredBlocks u,
             MergedOutOfOrderBlocks = mergedOutOfOrderBlocks br,
             EvictedBuckets = Len_times (evictedBucketTimes br)\<rparr>"
    and err: "err = (if ActiveBlocks u = 0 then Some ErrSeriesAllDatapointsExpired else None)"
    by (auto simp: Tick_def Let_def split: if_splits)
  show "s' = s\<lparr>buffer := buf,
                 cachedBlocks := [y\<leftarrow>cachedBlocks s.
                    fst y \<notin> removedKeys now (opts s) bss (evictedBucketTimes br) (cachedBlocks s)]\<rparr>"
    using post by simp
  show "effs = map (\<lambda>x. BlockClose (snd x))
                  [x\<leftarrow>cachedBlocks s. closedBy now (opts s) bss (evictedBucketTimes br) x]"
    using post by simp
  show "MadeExpiredBlocks r =
           int (length [x\<leftarrow>cachedBlocks s.
                  spec_expires now (RetentionOpts (opts s)) (evictedBucketTimes br) (fst x)])"
    using post r by simp
  show "MadeUnwiredBlocks r =
           int (length [x\<leftarrow>cachedBlocks s.
                  \<not> spec_expires now (RetentionOpts (opts s)) (evictedBucketTimes br) (fst x)
                  \<and> spec_unwires now (opts s) bss (fst x) (snd x)])"
    using post r by simp
  show "UnwiredBlocks r = MadeUnwiredBlocks r"
    using post r by simp
  show "ActiveBlocks r =
           int (length [x\<leftarrow>cachedBlocks s.
                  \<not> spec_expires now (RetentionOpts (opts s)) (evictedBucketTimes br) (fst x)])
           + wiredBlocks (buffer_Stats ops buf)"
    using post r by simp
  show "WiredBlocks r =
           int (length [x\<leftarrow>cachedBlocks s.
                  \<not> spec_expires now (RetentionOpts (opts s)) (evictedBucketTimes br) (fst x)
                  \<and> \<not> spec_unwires now (opts s) bss (fst x) (snd x)])
           + wiredBlocks (buffer_Stats ops buf)"
    using post r by simp
  show "MergedOutOfOrderBlocks r = mergedOutOfOrderBlocks br"
    using r by simp
  show "EvictedBuckets r = int (length (evictedBucketTimes br))"
    using r by (simp add: Len_times_def)
  show "err = (if ActiveBlocks r = 0 then Some ErrSeriesAllDatapointsExpired else None)"
    using err r by simp
  show "PendingMergeBlocks r =
           int (length [x\<leftarrow>cachedBlocks s.
                  \<not> spec_expires now (RetentionOpts (opts s)) (evictedBucketTimes br) (fst x)
                  \<and> \<not> spec_unwires now (opts s) bss (fst x) (snd x)
                  \<and> CachePolicy_of (opts s) \<noteq> CacheAll \<and> HasMergeTarget (snd x)])"
    using post r by simp
qed

lemma Tick_Inl:
  assumes bt: "buffer_Tick ops bss ns (buffer s) = (br, buf)"
    and tick: "Tick ops now bss ns s = Inl a"
  shows "a = LoggerFatal \<and> (\<exists>n. CachePolicy_of (opts s) = CacheUnhandled n)
       \<and> (\<exists>x\<in>set (cachedBlocks s).
             \<not> spec_expires now (RetentionOpts (opts s)) (evictedBucketTimes br) (fst x)
             \<and> bootstrapped_flag bss \<and> WarmRetrievable (Snapshot_at (snapshot bss) (fst x)))"
proof -
  from tick bt have
    "updateBlocksWithLock ops now bss (evictedBucketTimes br) (s\<lparr>buffer := buf\<rparr>) = Inl a"
    by (auto simp: Tick_def Let_def split: sum.splits option.splits if_splits)
  from updateBlocksWithLock_Inl [OF this] show ?thesis by simp
qed

section \<open>Tick: unwiring\<close>

lemma length_filter_mono:
  assumes "\<And>x. x \<in> set xs \<Longrightarrow> P x \<Longrightarrow> Q x"
  shows "length (filter P xs) \<le> length (filter Q xs)"
  using assms by (induction xs) auto

lemma spec_unwires_flushed:
  "spec_unwires now os bss k b \<Longrightarrow>
     bootstrapped_flag bss \<and> WarmRetrievable (Snapshot_at (snapshot bss) k)"
  by (simp add: spec_unwires_def)

lemma kept_in_cache:
  assumes "x \<in> set c"
    and "\<not> spec_expires now (RetentionOpts os) ev (fst x)"
    and "\<And>y. y \<in> set c \<Longrightarrow> fst y = fst x \<Longrightarrow> \<not> spec_unwires now os bss (fst y) (snd y)"
  shows "x \<in> set [y\<leftarrow>c. fst y \<notin> removedKeys now os bss ev c]"
  using assms by (auto simp: removedKeys_def)

text \<open>
  C1. During Tick, a cached block that does not expire is unwired (removed from the Block
  Cache and closed) only if the block-state snapshot is marked bootstrapped and reports
  \<open>WarmRetrievable\<close> for the block's start: a block without that stays in the cache, every
  block closed is cached at a start that expired or is warm retrievable, and the number
  of unwired blocks is at most the number of such blocks. With no warm-retrievable start
  among the cached blocks, Tick returns under every cache policy with zero unwires: it
  removes and closes expired blocks only. Tick ends without returning only by the
  logger's Fatal, under an unhandled cache policy, at a warm-retrievable block.
\<close>

theorem Tick_unwires_only_warm_retrievable:
  assumes bt: "buffer_Tick ops bss ns (buffer s) = (br, buf)"
  shows "case Tick ops now bss ns s of
           Inl a \<Rightarrow>
             a = LoggerFatal \<and> (\<exists>n. CachePolicy_of (opts s) = CacheUnhandled n)
             \<and> (\<exists>x\<in>set (cachedBlocks s).
                   bootstrapped_flag bss \<and> WarmRetrievable (Snapshot_at (snapshot bss) (fst x)))
         | Inr ((r, err), s', effs) \<Rightarrow>
             (\<forall>x\<in>set (cachedBlocks s).
                \<not> spec_expires now (RetentionOpts (opts s)) (evictedBucketTimes br) (fst x)
                \<and> \<not> (bootstrapped_flag bss \<and> WarmRetrievable (Snapshot_at (snapshot bss) (fst x)))
                \<longrightarrow> x \<in> set (cachedBlocks s'))
             \<and> (\<forall>b. BlockClose b \<in> set effs \<longrightarrow>
                  (\<exists>k. (k, b) \<in> set (cachedBlocks s)
                     \<and> (spec_expires now (RetentionOpts (opts s)) (evictedBucketTimes br) k
                        \<or> bootstrapped_flag bss \<and> WarmRetrievable (Snapshot_at (snapshot bss) k))))
             \<and> MadeUnwiredBlocks r \<le>
                 int (length [x\<leftarrow>cachedBlocks s.
                   \<not> spec_expires now (RetentionOpts (opts s)) (evictedBucketTimes br) (fst x)
                   \<and> bootstrapped_flag bss \<and> WarmRetrievable (Snapshot_at (snapshot bss) (fst x))])
             \<and> ((\<forall>x\<in>set (cachedBlocks s).
                    \<not> (bootstrapped_flag bss \<and> WarmRetrievable (Snapshot_at (snapshot bss) (fst x))))
                 \<longrightarrow> MadeUnwiredBlocks r = 0 \<and> UnwiredBlocks r = 0
                     \<and> cachedBlocks s' =
                         [x\<leftarrow>cachedBlocks s.
                            \<not> spec_expires now (RetentionOpts (opts s)) (evictedBucketTimes br) (fst x)]
                     \<and> effs = map (\<lambda>x. BlockClose (snd x))
                         [x\<leftarrow>cachedBlocks s.
                            spec_expires now (RetentionOpts (opts s)) (evictedBucketTimes br) (fst x)
                            \<and> \<not> (CachePolicy_of (opts s) = CacheLRU \<and> WasRetrievedFromDisk (snd x))])"
proof (cases "Tick ops now bss ns s")
  case (Inl a)
  from Tick_Inl [OF bt Inl] show ?thesis by (auto simp: Inl)
next
  case (Inr res)
  obtain r err s' effs where res: "res = ((r, err), s', effs)" by (cases res) auto
  note tick = Inr [unfolded res]
  let ?ev = "evictedBucketTimes br"
  let ?E = "\<lambda>k. spec_expires now (RetentionOpts (opts s)) ?ev k"
  let ?W = "\<lambda>k. bootstrapped_flag bss \<and> WarmRetrievable (Snapshot_at (snapshot bss) k)"
  have cache: "cachedBlocks s' =
      [y\<leftarrow>cachedBlocks s. fst y \<notin> removedKeys now (opts s) bss ?ev (cachedBlocks s)]"
    using Tick_Inr(1) [OF bt tick] by simp
  note effs = Tick_Inr(2) [OF bt tick]
  note unw = Tick_Inr(4) [OF bt tick]
  note unw' = Tick_Inr(5) [OF bt tick]
  have a: "\<forall>x\<in>set (cachedBlocks s). \<not> ?E (fst x) \<and> \<not> ?W (fst x) \<longrightarrow> x \<in> set (cachedBlocks s')"
  proof (intro ballI impI)
    fix x assume x: "x \<in> set (cachedBlocks s)" and h: "\<not> ?E (fst x) \<and> \<not> ?W (fst x)"
    show "x \<in> set (cachedBlocks s')"
      unfolding cache using x h
      by (intro kept_in_cache) (auto dest: spec_unwires_flushed)
  qed
  have b: "\<forall>b. BlockClose b \<in> set effs \<longrightarrow>
             (\<exists>k. (k, b) \<in> set (cachedBlocks s) \<and> (?E k \<or> ?W k))"
  proof (intro allI impI)
    fix b assume "BlockClose b \<in> set effs"
    then obtain x where x: "x \<in> set (cachedBlocks s)" "closedBy now (opts s) bss ?ev x" "snd x = b"
      unfolding effs by auto
    have "?E (fst x) \<or> ?W (fst x)"
      using x(2) spec_unwires_flushed [of now "opts s" bss "fst x" "snd x"]
      by (auto simp: closedBy_def split: if_splits)
    moreover have "(fst x, b) \<in> set (cachedBlocks s)" using x(1,3) by (cases x) auto
    ultimately show "\<exists>k. (k, b) \<in> set (cachedBlocks s) \<and> (?E k \<or> ?W k)" by blast
  qed
  have c: "MadeUnwiredBlocks r \<le> int (length [x\<leftarrow>cachedBlocks s. \<not> ?E (fst x) \<and> ?W (fst x)])"
    unfolding unw by (simp, rule length_filter_mono) (auto dest: spec_unwires_flushed)
  have d: "MadeUnwiredBlocks r = 0 \<and> UnwiredBlocks r = 0
           \<and> cachedBlocks s' = [x\<leftarrow>cachedBlocks s. \<not> ?E (fst x)]
           \<and> effs = map (\<lambda>x. BlockClose (snd x))
                 [x\<leftarrow>cachedBlocks s. ?E (fst x)
                    \<and> \<not> (CachePolicy_of (opts s) = CacheLRU \<and> WasRetrievedFromDisk (snd x))]"
    if nw: "\<forall>x\<in>set (cachedBlocks s). \<not> ?W (fst x)"
  proof -
    have nu: "\<not> spec_unwires now (opts s) bss (fst x) (snd x)" if "x \<in> set (cachedBlocks s)" for x
      using nw that spec_unwires_flushed by blast
    have "MadeUnwiredBlocks r = 0"
      unfolding unw using nu by (simp add: filter_empty_conv)
    moreover have "cachedBlocks s' = [x\<leftarrow>cachedBlocks s. \<not> ?E (fst x)]"
      unfolding cache using nu by (intro filter_cong) (auto simp: removedKeys_def)
    moreover have "effs = map (\<lambda>x. BlockClose (snd x))
                 [x\<leftarrow>cachedBlocks s. ?E (fst x)
                    \<and> \<not> (CachePolicy_of (opts s) = CacheLRU \<and> WasRetrievedFromDisk (snd x))]"
      unfolding effs using nu
      by (intro arg_cong [where f = "map (\<lambda>x. BlockClose (snd x))"] filter_cong)
         (auto simp: closedBy_def)
    ultimately show ?thesis using unw' by simp
  qed
  from a b c d show ?thesis by (simp add: Inr res)
qed

lemmas tick_eval =
  Tick_def updateBlocksWithLock_def updateBlock_def shouldUnwire_def UnwrapValue_def Snapshot_at_def
  AllBlocks_def RemoveBlockAt_def Contains_def Len_times_def time_Truncate_def time_Add_def
  time_Sub_def time_Before_def ToTime_def ToUnixNano_def unixToInternal_def minDuration_def
  maxDuration_def stubBuffer_def exampleOptions_def exampleBlock_def exampleSeries_def
  exampleStates_def hour_def Let_def

lemma Tick_example_unflushed:
  "Tick (stubBuffer [] 0) (ToTime (1001 * hour)) (exampleStates True Map.empty) ''ns''
     (exampleSeries CacheNone [(998 * hour, exampleBlock (998 * hour) False (999 * hour))] bootstrapped)
   = Inr ((\<lparr>ActiveBlocks = 1, WiredBlocks = 1, UnwiredBlocks = 0, PendingMergeBlocks = 0,
            MadeExpiredBlocks = 0, MadeUnwiredBlocks = 0, MergedOutOfOrderBlocks = 0,
            EvictedBuckets = 0\<rparr>, None),
          exampleSeries CacheNone [(998 * hour, exampleBlock (998 * hour) False (999 * hour))] bootstrapped,
          [])"
  by (simp add: tick_eval)

theorem Tick_unwires_only_warm_retrievable_witness:
  "buffer_Tick (stubBuffer [] 0) (exampleStates True Map.empty) ''ns''
      (buffer (exampleSeries CacheNone
         [(998 * hour, exampleBlock (998 * hour) False (999 * hour))] bootstrapped))
     = (\<lparr>mergedOutOfOrderBlocks = 0, evictedBucketTimes = []\<rparr>, [])
   \<and> (case Tick (stubBuffer [] 0) (ToTime (1001 * hour)) (exampleStates True Map.empty) ''ns''
        (exampleSeries CacheNone [(998 * hour, exampleBlock (998 * hour) False (999 * hour))] bootstrapped) of
        Inl a \<Rightarrow> False
      | Inr ((r, err), s', effs) \<Rightarrow>
          MadeUnwiredBlocks r = 0 \<and> UnwiredBlocks r = 0 \<and> effs = []
          \<and> cachedBlocks s' = [(998 * hour, exampleBlock (998 * hour) False (999 * hour))])"
proof -
  have bt: "buffer_Tick (stubBuffer [] 0) (exampleStates True Map.empty) ''ns''
      (buffer (exampleSeries CacheNone
         [(998 * hour, exampleBlock (998 * hour) False (999 * hour))] bootstrapped))
     = (\<lparr>mergedOutOfOrderBlocks = 0, evictedBucketTimes = []\<rparr>, [])"
    by (simp add: stubBuffer_def exampleSeries_def)
  from Tick_unwires_only_warm_retrievable [OF bt, of "ToTime (1001 * hour)"] bt
  show ?thesis
    unfolding Tick_example_unflushed
    by (simp add: exampleSeries_def exampleStates_def Snapshot_at_def
        spec_expires_def time_Truncate_def ToTime_def unixToInternal_def exampleOptions_def hour_def)
qed

section \<open>Tick: expiry and the all-expired signal\<close>

lemma removedKeys_distinct:
  assumes "distinct (map fst c)" and "y \<in> set c"
  shows "fst y \<in> removedKeys now os bss ev c \<longleftrightarrow>
           spec_expires now (RetentionOpts os) ev (fst y) \<or> spec_unwires now os bss (fst y) (snd y)"
proof -
  have "x = y" if "x \<in> set c" "fst x = fst y" for x
    using assms that by (metis distinct_map inj_onD)
  then show ?thesis using assms(2) by (auto simp: removedKeys_def)
qed

lemma closed_under_LRU:
  assumes "closedBy now os bss ev x" and "CachePolicy_of os = CacheLRU"
  shows "\<not> WasRetrievedFromDisk (snd x)"
  using assms by (auto simp: closedBy_def spec_unwires_def split: if_splits)

text \<open>
  C2. During Tick, the blocks counted in \<open>MadeExpiredBlocks\<close> are exactly the cached blocks
  whose start precedes \<open>now - retentionPeriod\<close> truncated to block-size boundaries or was
  reported evicted by the Write Buffer in the same Tick; each of them leaves the Block
  Cache, and is closed by the series unless the cache policy is \<open>CacheLRU\<close> and the block
  was retrieved from disk. A block that neither expires nor is unwired stays in the cache.
\<close>

theorem Tick_expires_blocks:
  assumes bt: "buffer_Tick ops bss ns (buffer s) = (br, buf)"
    and dist: "distinct (map fst (cachedBlocks s))"
  shows "case Tick ops now bss ns s of
           Inl a \<Rightarrow> a = LoggerFatal \<and> (\<exists>n. CachePolicy_of (opts s) = CacheUnhandled n)
         | Inr ((r, err), s', effs) \<Rightarrow>
             MadeExpiredBlocks r =
               int (length [x\<leftarrow>cachedBlocks s.
                 ToTime (fst x) <
                   time_Truncate (now - RetentionPeriod (RetentionOpts (opts s)))
                     (BlockSize (RetentionOpts (opts s)))
                 \<or> fst x \<in> set (evictedBucketTimes br)])
             \<and> (\<forall>x\<in>set (cachedBlocks s).
                  spec_expires now (RetentionOpts (opts s)) (evictedBucketTimes br) (fst x) \<longrightarrow>
                    fst x \<notin> fst ` set (cachedBlocks s')
                    \<and> (BlockClose (snd x) \<in> set effs \<longleftrightarrow>
                         \<not> (CachePolicy_of (opts s) = CacheLRU \<and> WasRetrievedFromDisk (snd x))))
             \<and> (\<forall>x\<in>set (cachedBlocks s).
                  \<not> spec_expires now (RetentionOpts (opts s)) (evictedBucketTimes br) (fst x)
                  \<and> \<not> spec_unwires now (opts s) bss (fst x) (snd x) \<longrightarrow>
                    x \<in> set (cachedBlocks s'))"
proof (cases "Tick ops now bss ns s")
  case (Inl a)
  from Tick_Inl [OF bt Inl] show ?thesis by (auto simp: Inl)
next
  case (Inr res)
  obtain r err s' effs where res: "res = ((r, err), s', effs)" by (cases res) auto
  note tick = Inr [unfolded res]
  let ?ev = "evictedBucketTimes br"
  let ?E = "\<lambda>k. spec_expires now (RetentionOpts (opts s)) ?ev k"
  have cache: "cachedBlocks s' =
      [y\<leftarrow>cachedBlocks s. fst y \<notin> removedKeys now (opts s) bss ?ev (cachedBlocks s)]"
    using Tick_Inr(1) [OF bt tick] by simp
  note effs = Tick_Inr(2) [OF bt tick]
  have a: "MadeExpiredBlocks r =
               int (length [x\<leftarrow>cachedBlocks s.
                 ToTime (fst x) <
                   time_Truncate (now - RetentionPeriod (RetentionOpts (opts s)))
                     (BlockSize (RetentionOpts (opts s)))
                 \<or> fst x \<in> set ?ev])"
    using Tick_Inr(3) [OF bt tick] by (simp add: spec_expires_def)
  have b: "fst x \<notin> fst ` set (cachedBlocks s')
           \<and> (BlockClose (snd x) \<in> set effs \<longleftrightarrow>
                \<not> (CachePolicy_of (opts s) = CacheLRU \<and> WasRetrievedFromDisk (snd x)))"
    if x: "x \<in> set (cachedBlocks s)" and e: "?E (fst x)" for x
  proof
    have "fst x \<in> removedKeys now (opts s) bss ?ev (cachedBlocks s)"
      using x e by (auto simp: removedKeys_def)
    then show "fst x \<notin> fst ` set (cachedBlocks s')"
      unfolding cache by auto
    show "BlockClose (snd x) \<in> set effs \<longleftrightarrow>
            \<not> (CachePolicy_of (opts s) = CacheLRU \<and> WasRetrievedFromDisk (snd x))"
    proof
      assume "BlockClose (snd x) \<in> set effs"
      then obtain y where y: "y \<in> set (cachedBlocks s)" "closedBy now (opts s) bss ?ev y"
        "snd y = snd x" unfolding effs by auto
      show "\<not> (CachePolicy_of (opts s) = CacheLRU \<and> WasRetrievedFromDisk (snd x))"
        using closed_under_LRU [OF y(2)] y(3) by auto
    next
      assume "\<not> (CachePolicy_of (opts s) = CacheLRU \<and> WasRetrievedFromDisk (snd x))"
      with e have "closedBy now (opts s) bss ?ev x" by (simp add: closedBy_def)
      with x show "BlockClose (snd x) \<in> set effs" unfolding effs by auto
    qed
  qed
  have c: "x \<in> set (cachedBlocks s')"
    if x: "x \<in> set (cachedBlocks s)"
      and k: "\<not> ?E (fst x) \<and> \<not> spec_unwires now (opts s) bss (fst x) (snd x)" for x
    unfolding cache using x k removedKeys_distinct [OF dist x, of now "opts s" bss ?ev] by simp
  from a b c show ?thesis by (simp add: Inr res)
qed

text \<open>
  C7. Tick returns \<open>ErrSeriesAllDatapointsExpired\<close> exactly when the active-block count of
  the pass is zero, and no error otherwise; the active-block count is the number of
  cached blocks that did not expire (a block unwired in this pass counts) plus the
  buffer's wired-block count after the buffer's tick. Either way the result carries the
  counters of the completed pass: merged and evicted from the buffer's tick, made
  expired, made unwired, and the status counts.
\<close>

theorem Tick_all_datapoints_expired:
  assumes bt: "buffer_Tick ops bss ns (buffer s) = (br, buf)"
  shows "case Tick ops now bss ns s of
           Inl a \<Rightarrow> a = LoggerFatal \<and> (\<exists>n. CachePolicy_of (opts s) = CacheUnhandled n)
         | Inr ((r, err), s', effs) \<Rightarrow>
             (err = Some ErrSeriesAllDatapointsExpired \<longleftrightarrow> ActiveBlocks r = 0)
             \<and> (err = None \<longleftrightarrow> ActiveBlocks r \<noteq> 0)
             \<and> ActiveBlocks r =
                 int (length [x\<leftarrow>cachedBlocks s.
                   \<not> spec_expires now (RetentionOpts (opts s)) (evictedBucketTimes br) (fst x)])
                 + wiredBlocks (buffer_Stats ops buf)
             \<and> MergedOutOfOrderBlocks r = mergedOutOfOrderBlocks br
             \<and> EvictedBuckets r = int (length (evictedBucketTimes br))
             \<and> MadeExpiredBlocks r =
                 int (length [x\<leftarrow>cachedBlocks s.
                   spec_expires now (RetentionOpts (opts s)) (evictedBucketTimes br) (fst x)])
             \<and> MadeUnwiredBlocks r =
                 int (length [x\<leftarrow>cachedBlocks s.
                   \<not> spec_expires now (RetentionOpts (opts s)) (evictedBucketTimes br) (fst x)
                   \<and> spec_unwires now (opts s) bss (fst x) (snd x)])
             \<and> UnwiredBlocks r = MadeUnwiredBlocks r
             \<and> WiredBlocks r =
                 int (length [x\<leftarrow>cachedBlocks s.
                   \<not> spec_expires now (RetentionOpts (opts s)) (evictedBucketTimes br) (fst x)
                   \<and> \<not> spec_unwires now (opts s) bss (fst x) (snd x)])
                 + wiredBlocks (buffer_Stats ops buf)
             \<and> PendingMergeBlocks r =
                 int (length [x\<leftarrow>cachedBlocks s.
                   \<not> spec_expires now (RetentionOpts (opts s)) (evictedBucketTimes br) (fst x)
                   \<and> \<not> spec_unwires now (opts s) bss (fst x) (snd x)
                   \<and> CachePolicy_of (opts s) \<noteq> CacheAll \<and> HasMergeTarget (snd x)])
             \<and> buffer s' = buf"
proof (cases "Tick ops now bss ns s")
  case (Inl a)
  from Tick_Inl [OF bt Inl] show ?thesis by (auto simp: Inl)
next
  case (Inr res)
  obtain r err s' effs where res: "res = ((r, err), s', effs)" by (cases res) auto
  note tick = Inr [unfolded res]
  note f = Tick_Inr [OF bt tick]
  have e: "(err = Some ErrSeriesAllDatapointsExpired \<longleftrightarrow> ActiveBlocks r = 0)
           \<and> (err = None \<longleftrightarrow> ActiveBlocks r \<noteq> 0)"
    using f(10) by simp
  have b: "buffer s' = buf" using f(1) by simp
  from e b f(3-9) f(11) show ?thesis by (simp add: Inr res)
qed

lemma Tick_example_expired:
  "Tick (stubBuffer [996 * hour] 0) (ToTime (1001 * hour)) (exampleStates True Map.empty) ''ns''
     (exampleSeries CacheLRU
        [(900 * hour, exampleBlock (900 * hour) True (901 * hour)),
         (996 * hour, exampleBlock (996 * hour) False (997 * hour)),
         (998 * hour, exampleBlock (998 * hour) False (999 * hour))] bootstrapped)
   = Inr ((\<lparr>ActiveBlocks = 1, WiredBlocks = 1, UnwiredBlocks = 0, PendingMergeBlocks = 0,
            MadeExpiredBlocks = 2, MadeUnwiredBlocks = 0, MergedOutOfOrderBlocks = 0,
            EvictedBuckets = 1\<rparr>, None),
          exampleSeries CacheLRU [(998 * hour, exampleBlock (998 * hour) False (999 * hour))] bootstrapped,
          [BlockClose (exampleBlock (996 * hour) False (997 * hour))])"
  by (simp add: tick_eval)

theorem Tick_expires_blocks_witness:
  "distinct (map fst (cachedBlocks (exampleSeries CacheLRU
        [(900 * hour, exampleBlock (900 * hour) True (901 * hour)),
         (996 * hour, exampleBlock (996 * hour) False (997 * hour)),
         (998 * hour, exampleBlock (998 * hour) False (999 * hour))] bootstrapped)))
   \<and> (case Tick (stubBuffer [996 * hour] 0) (ToTime (1001 * hour)) (exampleStates True Map.empty) ''ns''
        (exampleSeries CacheLRU
          [(900 * hour, exampleBlock (900 * hour) True (901 * hour)),
           (996 * hour, exampleBlock (996 * hour) False (997 * hour)),
           (998 * hour, exampleBlock (998 * hour) False (999 * hour))] bootstrapped) of
        Inl a \<Rightarrow> False
      | Inr ((r, err), s', effs) \<Rightarrow>
          MadeExpiredBlocks r = 2
          \<and> cachedBlocks s' = [(998 * hour, exampleBlock (998 * hour) False (999 * hour))]
          \<and> effs = [BlockClose (exampleBlock (996 * hour) False (997 * hour))])"
proof -
  let ?s = "exampleSeries CacheLRU
        [(900 * hour, exampleBlock (900 * hour) True (901 * hour)),
         (996 * hour, exampleBlock (996 * hour) False (997 * hour)),
         (998 * hour, exampleBlock (998 * hour) False (999 * hour))] bootstrapped"
  have bt: "buffer_Tick (stubBuffer [996 * hour] 0) (exampleStates True Map.empty) ''ns'' (buffer ?s)
     = (\<lparr>mergedOutOfOrderBlocks = 0, evictedBucketTimes = [996 * hour]\<rparr>, [])"
    by (simp add: stubBuffer_def exampleSeries_def)
  have dist: "distinct (map fst (cachedBlocks ?s))"
    by (simp add: exampleSeries_def hour_def)
  from Tick_expires_blocks [OF bt dist, of "ToTime (1001 * hour)"] dist
  show ?thesis
    unfolding Tick_example_expired
    by (simp add: exampleSeries_def)
qed

lemma Tick_example_all_expired:
  "Tick (stubBuffer [] 0) (ToTime (1001 * hour)) (exampleStates True Map.empty) ''ns''
     (exampleSeries CacheRecentlyRead
        [(900 * hour, exampleBlock (900 * hour) False (901 * hour))] bootstrapped)
   = Inr ((\<lparr>ActiveBlocks = 0, WiredBlocks = 0, UnwiredBlocks = 0, PendingMergeBlocks = 0,
            MadeExpiredBlocks = 1, MadeUnwiredBlocks = 0, MergedOutOfOrderBlocks = 0,
            EvictedBuckets = 0\<rparr>, Some ErrSeriesAllDatapointsExpired),
          exampleSeries CacheRecentlyRead [] bootstrapped,
          [BlockClose (exampleBlock (900 * hour) False (901 * hour))])"
  by (simp add: tick_eval)

theorem Tick_all_datapoints_expired_witness:
  "buffer_Tick (stubBuffer [] 0) (exampleStates True Map.empty) ''ns''
      (buffer (exampleSeries CacheRecentlyRead
        [(900 * hour, exampleBlock (900 * hour) False (901 * hour))] bootstrapped))
     = (\<lparr>mergedOutOfOrderBlocks = 0, evictedBucketTimes = []\<rparr>, [])
   \<and> (case Tick (stubBuffer [] 0) (ToTime (1001 * hour)) (exampleStates True Map.empty) ''ns''
        (exampleSeries CacheRecentlyRead
          [(900 * hour, exampleBlock (900 * hour) False (901 * hour))] bootstrapped) of
        Inl a \<Rightarrow> False
      | Inr ((r, err), s', effs) \<Rightarrow>
          err = Some ErrSeriesAllDatapointsExpired \<and> ActiveBlocks r = 0 \<and> MadeExpiredBlocks r = 1
          \<and> cachedBlocks s' = [])"
proof -
  let ?s = "exampleSeries CacheRecentlyRead
        [(900 * hour, exampleBlock (900 * hour) False (901 * hour))] bootstrapped"
  have bt: "buffer_Tick (stubBuffer [] 0) (exampleStates True Map.empty) ''ns'' (buffer ?s)
     = (\<lparr>mergedOutOfOrderBlocks = 0, evictedBucketTimes = []\<rparr>, [])"
    by (simp add: stubBuffer_def exampleSeries_def)
  from Tick_all_datapoints_expired [OF bt, of "ToTime (1001 * hour)"] bt
  show ?thesis
    unfolding Tick_example_all_expired
    by (simp add: exampleSeries_def)
qed

text \<open>
  The concrete scenario of the spec: policy \<open>CacheRecentlyRead\<close>, one cached block at
  \<open>now - 3h\<close> last read at \<open>now - 2h\<close>, its start warm retrievable. Tick unwires and closes
  it; it still counts as active, and no block is left wired.
\<close>

lemma Tick_example_recently_read:
  "Tick (stubBuffer [] 0) (ToTime (1001 * hour))
     (exampleStates True [998 * hour \<mapsto> \<lparr>WarmRetrievable = True, ColdVersion = 0\<rparr>]) ''ns''
     (exampleSeries CacheRecentlyRead
        [(998 * hour, exampleBlock (998 * hour) False (999 * hour))] bootstrapped)
   = Inr ((\<lparr>ActiveBlocks = 1, WiredBlocks = 0, UnwiredBlocks = 1, PendingMergeBlocks = 0,
            MadeExpiredBlocks = 0, MadeUnwiredBlocks = 1, MergedOutOfOrderBlocks = 0,
            EvictedBuckets = 0\<rparr>, None),
          exampleSeries CacheRecentlyRead [] bootstrapped,
          [BlockClose (exampleBlock (998 * hour) False (999 * hour))])"
  by (simp add: tick_eval)

section \<open>Close\<close>

text \<open>
  C3. Close clears the identity and the tags, closes every cached block unless the cache
  policy is \<open>CacheLRU\<close> (under \<open>CacheLRU\<close> it closes none, so the disk-retrieved blocks are
  left for the Wired List), resets the Write Buffer and empties the Block Cache, and puts
  the series back into its pool when it has one.
\<close>

theorem Close_clears_series:
  "Close ops s =
     (s\<lparr>id_series := None, tags := [],
        buffer := buffer_Reset ops None (opts s) (buffer s),
        cachedBlocks := []\<rparr>,
      (if CachePolicy_of (opts s) = CacheLRU then []
       else map (\<lambda>x. BlockClose (snd x)) (cachedBlocks s))
      @ (if pool s = None then [] else [SeriesPoolPut]))"
  by (cases "CachePolicy_of (opts s)")
     (simp_all add: Close_def RemoveAll_def Reset_blocks_def Let_def split_def)

theorem Close_clears_series_witness:
  "Close (stubBuffer [] 0)
     (exampleSeries CacheNone [(998 * hour, exampleBlock (998 * hour) True (999 * hour))] bootstrapped)
   = ((exampleSeries CacheNone [] bootstrapped)\<lparr>id_series := None, tags := []\<rparr>,
      [BlockClose (exampleBlock (998 * hour) True (999 * hour)), SeriesPoolPut])
   \<and> Close (stubBuffer [] 0)
     (exampleSeries CacheLRU [(998 * hour, exampleBlock (998 * hour) True (999 * hour))] bootstrapped)
   = ((exampleSeries CacheLRU [] bootstrapped)\<lparr>id_series := None, tags := []\<rparr>,
      [SeriesPoolPut])"
  using Close_clears_series [of "stubBuffer [] 0"
      "exampleSeries CacheNone [(998 * hour, exampleBlock (998 * hour) True (999 * hour))] bootstrapped"]
    Close_clears_series [of "stubBuffer [] 0"
      "exampleSeries CacheLRU [(998 * hour, exampleBlock (998 * hour) True (999 * hour))] bootstrapped"]
  by (simp add: exampleSeries_def exampleOptions_def stubBuffer_def)

section \<open>Load and bootstrap\<close>

lemma loadBlocks_foldl:
  "loadBlocks ops states blocks buf =
     foldl (\<lambda>buf x. buffer_Load ops (snd x)
              (if WarmRetrievable (Snapshot_at states (ToUnixNano (StartTime (snd x))))
               then ColdWrite else WarmWrite) buf) buf blocks"
  by (induction blocks arbitrary: buf) (auto simp: Let_def)

text \<open>
  C4, as amended. Load in plain load mode, and Load in bootstrap mode on a series that
  is not yet bootstrapped, hands every block passed to it to the Write Buffer, once and in
  the order of enumeration: tagged \<open>WarmWrite\<close> if the snapshot reports
  \<open>WarmRetrievable == false\<close> for the block's start, tagged \<open>ColdWrite\<close> if it reports true.
\<close>

theorem Load_tags_blocks:
  assumes "\<not> (Bootstrap lopts \<and> bs s = bootstrapped)"
  shows "\<exists>res s'. Load ops lopts (Some blocks) states s = Inr ((res, None), s')
           \<and> buffer s' =
               foldl (\<lambda>buf x. buffer_Load ops (snd x)
                        (if WarmRetrievable (Snapshot_at states (ToUnixNano (StartTime (snd x))))
                         then ColdWrite else WarmWrite) buf)
                 (buffer s) blocks"
  using assms
  by (auto simp: Load_def bootstrap_def load_def loadWithLock_def AllBlocks_def Let_def
      loadBlocks_foldl)

lemmas load_eval =
  Load_def bootstrap_def load_def loadWithLock_def AllBlocks_def Len_blocks_def Snapshot_at_def
  ToTime_def ToUnixNano_def unixToInternal_def stubBuffer_def exampleOptions_def exampleBlock_def
  exampleSeries_def hour_def Let_def

theorem Load_tags_blocks_witness:
  "\<not> (Bootstrap \<lparr>Bootstrap = True\<rparr> \<and> bs (exampleSeries CacheLRU [] bootstrapNotStarted) = bootstrapped)
   \<and> Load (stubBuffer [] 0) \<lparr>Bootstrap = True\<rparr>
       (Some [(996 * hour, exampleBlock (996 * hour) False (997 * hour)),
              (998 * hour, exampleBlock (998 * hour) False (999 * hour))])
       \<lparr>Snapshot = [998 * hour \<mapsto> \<lparr>WarmRetrievable = True, ColdVersion = 0\<rparr>]\<rparr>
       (exampleSeries CacheLRU [] bootstrapNotStarted)
     = Inr ((\<lparr>Bootstrap_result = \<lparr>NumBlocksMovedToBuffer = 2\<rparr>\<rparr>, None),
            (exampleSeries CacheLRU [] bootstrapped)
              \<lparr>buffer := [(exampleBlock (996 * hour) False (997 * hour), WarmWrite),
                          (exampleBlock (998 * hour) False (999 * hour), ColdWrite)]\<rparr>)"
proof -
  have h: "\<not> (Bootstrap \<lparr>Bootstrap = True\<rparr>
               \<and> bs (exampleSeries CacheLRU [] bootstrapNotStarted) = bootstrapped)"
    by (simp add: exampleSeries_def)
  from Load_tags_blocks [OF h, of "stubBuffer [] 0"
      "[(996 * hour, exampleBlock (996 * hour) False (997 * hour)),
        (998 * hour, exampleBlock (998 * hour) False (999 * hour))]"
      "\<lparr>Snapshot = [998 * hour \<mapsto> \<lparr>WarmRetrievable = True, ColdVersion = 0\<rparr>]\<rparr>"] h
  show ?thesis by (simp add: load_eval)
qed

text \<open>
  C4 as stated fails for Load in bootstrap mode on a series that is already bootstrapped:
  the block passed, whose start is not warm retrievable, is not loaded at all. The call
  returns \<open>errSeriesAlreadyBootstrapped\<close> and leaves the buffer empty, where loading the
  block tagged \<open>WarmWrite\<close> would have put it there.
\<close>

theorem Load_already_bootstrapped_counterexample:
  "Load (stubBuffer [] 0) \<lparr>Bootstrap = True\<rparr>
       (Some [(996 * hour, exampleBlock (996 * hour) False (997 * hour))])
       \<lparr>Snapshot = Map.empty\<rparr>
       (exampleSeries CacheLRU [] bootstrapped)
     = Inr ((\<lparr>Bootstrap_result = \<lparr>NumBlocksMovedToBuffer = 0\<rparr>\<rparr>, Some errSeriesAlreadyBootstrapped),
            exampleSeries CacheLRU [] bootstrapped)
   \<and> \<not> WarmRetrievable (Snapshot_at \<lparr>Snapshot = Map.empty\<rparr>
         (ToUnixNano (StartTime (exampleBlock (996 * hour) False (997 * hour)))))
   \<and> buffer (exampleSeries CacheLRU [] bootstrapped) = []
   \<and> buffer_Load (stubBuffer [] 0) (exampleBlock (996 * hour) False (997 * hour)) WarmWrite
         (buffer (exampleSeries CacheLRU [] bootstrapped))
       = [(exampleBlock (996 * hour) False (997 * hour), WarmWrite)]
   \<and> (exampleBlock (996 * hour) False (997 * hour), WarmWrite)
       \<notin> set (buffer (exampleSeries CacheLRU [] bootstrapped))"
  by (simp add: load_eval)

text \<open>
  C5. A second bootstrap on the same series, with no Reset in between, returns
  \<open>errSeriesAlreadyBootstrapped\<close>, reports no block moved and leaves the series as the first
  call left it, the buffer included: it loads nothing. The same holds through Load in
  bootstrap mode.
\<close>

theorem bootstrap_twice:
  "bootstrap ops blocks2 states2 (snd (bootstrap ops blocks1 states1 s))
     = ((\<lparr>NumBlocksMovedToBuffer = 0\<rparr>, Some errSeriesAlreadyBootstrapped),
        snd (bootstrap ops blocks1 states1 s))
   \<and> Load ops \<lparr>Bootstrap = True\<rparr> blocks2 states2 (snd (bootstrap ops blocks1 states1 s))
     = Inr ((\<lparr>Bootstrap_result = \<lparr>NumBlocksMovedToBuffer = 0\<rparr>\<rparr>, Some errSeriesAlreadyBootstrapped),
            snd (bootstrap ops blocks1 states1 s))
   \<and> buffer (snd (bootstrap ops blocks2 states2 (snd (bootstrap ops blocks1 states1 s))))
     = buffer (snd (bootstrap ops blocks1 states1 s))"
proof -
  have bs1: "bs (snd (bootstrap ops blocks1 states1 s)) = bootstrapped"
    by (simp add: bootstrap_def Let_def split: option.splits)
  have again: "bootstrap ops blocks2 states2 s' = ((\<lparr>NumBlocksMovedToBuffer = 0\<rparr>,
      Some errSeriesAlreadyBootstrapped), s')" if "bs s' = bootstrapped" for s' :: "'a dbSeries"
    using that by (simp add: bootstrap_def Let_def)
  from again [OF bs1] show ?thesis by (simp add: Load_def)
qed

theorem bootstrap_twice_witness:
  "bootstrap (stubBuffer [] 0)
       (Some [(996 * hour, exampleBlock (996 * hour) False (997 * hour))]) \<lparr>Snapshot = Map.empty\<rparr>
       (exampleSeries CacheLRU [] bootstrapNotStarted)
     = ((\<lparr>NumBlocksMovedToBuffer = 1\<rparr>, None),
        (exampleSeries CacheLRU [] bootstrapped)
          \<lparr>buffer := [(exampleBlock (996 * hour) False (997 * hour), WarmWrite)]\<rparr>)
   \<and> bootstrap (stubBuffer [] 0)
       (Some [(996 * hour, exampleBlock (996 * hour) False (997 * hour))]) \<lparr>Snapshot = Map.empty\<rparr>
       (snd (bootstrap (stubBuffer [] 0)
          (Some [(996 * hour, exampleBlock (996 * hour) False (997 * hour))]) \<lparr>Snapshot = Map.empty\<rparr>
          (exampleSeries CacheLRU [] bootstrapNotStarted)))
     = ((\<lparr>NumBlocksMovedToBuffer = 0\<rparr>, Some errSeriesAlreadyBootstrapped),
        (exampleSeries CacheLRU [] bootstrapped)
          \<lparr>buffer := [(exampleBlock (996 * hour) False (997 * hour), WarmWrite)]\<rparr>)"
proof -
  have first: "bootstrap (stubBuffer [] 0)
       (Some [(996 * hour, exampleBlock (996 * hour) False (997 * hour))]) \<lparr>Snapshot = Map.empty\<rparr>
       (exampleSeries CacheLRU [] bootstrapNotStarted)
     = ((\<lparr>NumBlocksMovedToBuffer = 1\<rparr>, None),
        (exampleSeries CacheLRU [] bootstrapped)
          \<lparr>buffer := [(exampleBlock (996 * hour) False (997 * hour), WarmWrite)]\<rparr>)"
    by (simp add: load_eval)
  from bootstrap_twice [of "stubBuffer [] 0"
      "Some [(996 * hour, exampleBlock (996 * hour) False (997 * hour))]" "\<lparr>Snapshot = Map.empty\<rparr>"
      "Some [(996 * hour, exampleBlock (996 * hour) False (997 * hour))]" "\<lparr>Snapshot = Map.empty\<rparr>"
      "exampleSeries CacheLRU [] bootstrapNotStarted"]
  show ?thesis unfolding first by simp
qed

section \<open>WarmFlush and Snapshot\<close>

text \<open>
  C6. On a series that is not bootstrapped, WarmFlush returns \<open>FlushOutcomeErr\<close> with
  \<open>errSeriesNotBootstrapped\<close> and Snapshot returns \<open>errSeriesNotBootstrapped\<close>; the series is
  unchanged and the result depends on neither the Write Buffer nor the persistence
  function, which are not invoked. On a bootstrapped series each returns what the Write
  Buffer's method returns for the block start, the series' identity and tags and the
  supplied persistence function, and stores the buffer's new state.
\<close>

theorem WarmFlush_Snapshot_require_bootstrapped:
  "(bs s \<noteq> bootstrapped \<longrightarrow>
      WarmFlush ops ctx blockStart persistFn nsCtx s
        = ((FlushOutcomeErr, Some errSeriesNotBootstrapped), s)
      \<and> Snapshot_series ops ctx blockStart persistFn nsCtx s
        = (Some errSeriesNotBootstrapped, s))
   \<and> (bs s = bootstrapped \<longrightarrow>
      WarmFlush ops ctx blockStart persistFn nsCtx s
        = (fst (buffer_WarmFlush ops ctx blockStart (id_series s) (tags s) persistFn nsCtx (buffer s)),
           s\<lparr>buffer :=
               snd (buffer_WarmFlush ops ctx blockStart (id_series s) (tags s) persistFn nsCtx (buffer s))\<rparr>)
      \<and> Snapshot_series ops ctx blockStart persistFn nsCtx s
        = (fst (buffer_Snapshot ops ctx blockStart (id_series s) (tags s) persistFn nsCtx (buffer s)),
           s\<lparr>buffer :=
               snd (buffer_Snapshot ops ctx blockStart (id_series s) (tags s) persistFn nsCtx (buffer s))\<rparr>))"
  by (simp add: WarmFlush_def Snapshot_series_def split_def)

theorem WarmFlush_Snapshot_require_bootstrapped_witness:
  "bs (exampleSeries CacheLRU [] bootstrapNotStarted) \<noteq> bootstrapped
   \<and> WarmFlush (stubBuffer [] 0) 0 (ToTime (998 * hour)) (\<lambda>i tgs seg. Some (errExternal ''disk full''))
        ''ns'' (exampleSeries CacheLRU [] bootstrapNotStarted)
      = ((FlushOutcomeErr, Some errSeriesNotBootstrapped), exampleSeries CacheLRU [] bootstrapNotStarted)
   \<and> Snapshot_series (stubBuffer [] 0) 0 (ToTime (998 * hour))
        (\<lambda>i tgs seg. Some (errExternal ''disk full''))
        ''ns'' (exampleSeries CacheLRU [] bootstrapNotStarted)
      = (Some errSeriesNotBootstrapped, exampleSeries CacheLRU [] bootstrapNotStarted)
   \<and> bs (exampleSeries CacheLRU [] bootstrapped) = bootstrapped
   \<and> WarmFlush (stubBuffer [] 0) 0 (ToTime (998 * hour)) (\<lambda>i tgs seg. Some (errExternal ''disk full''))
        ''ns'' (exampleSeries CacheLRU [] bootstrapped)
      = ((FlushOutcomeErr, Some (errExternal ''disk full'')), exampleSeries CacheLRU [] bootstrapped)
   \<and> Snapshot_series (stubBuffer [] 0) 0 (ToTime (998 * hour)) (\<lambda>i tgs seg. None)
        ''ns'' (exampleSeries CacheLRU [] bootstrapped)
      = (None, exampleSeries CacheLRU [] bootstrapped)"
  using WarmFlush_Snapshot_require_bootstrapped [of "exampleSeries CacheLRU [] bootstrapNotStarted"
      "stubBuffer [] 0" 0 "ToTime (998 * hour)" "\<lambda>i tgs seg. Some (errExternal ''disk full'')" "''ns''"]
    WarmFlush_Snapshot_require_bootstrapped [of "exampleSeries CacheLRU [] bootstrapped"
      "stubBuffer [] 0" 0 "ToTime (998 * hour)" "\<lambda>i tgs seg. Some (errExternal ''disk full'')" "''ns''"]
    WarmFlush_Snapshot_require_bootstrapped [of "exampleSeries CacheLRU [] bootstrapped"
      "stubBuffer [] 0" 0 "ToTime (998 * hour)" "\<lambda>i tgs seg. None" "''ns''"]
  by (simp add: exampleSeries_def stubBuffer_def)

section \<open>The retrieval bridge\<close>

text \<open>
  C8. OnRetrieveBlock with an id that does not match the series' identity leaves the
  series, and so the Block Cache, as it is and updates no Wired List. With a matching id
  it puts into the Block Cache, at the given start, the pooled block reset from disk:
  marked retrieved from disk, with the given start and segment, the series' identity and
  last-read time \<open>now\<close>; the other entries of the cache stay, and the Wired List, if one is
  configured, gets a blocking update with that block.
\<close>

theorem OnRetrieveBlock_identity_guard:
  "(\<not> Equal i (id_series s) \<longrightarrow>
      OnRetrieveBlock now pooled i tagsIter startTime seg nsCtx s = (s, []))
   \<and> (Equal i (id_series s) \<longrightarrow>
      (\<exists>b. OnRetrieveBlock now pooled i tagsIter startTime seg nsCtx s
              = (s\<lparr>cachedBlocks := AddBlock b (cachedBlocks s)\<rparr>,
                 if WiredList (opts s) = None then [] else [WiredListBlockingUpdate b])
          \<and> b = pooled\<lparr>StartTime := startTime, blockSize := BlockSize (RetentionOpts (opts s)),
                         segment := seg, seriesID := Some i, WasRetrievedFromDisk := True,
                         LastReadTime := now, onEvicted := blockOnEvictedFromWiredList s\<rparr>
          \<and> WasRetrievedFromDisk b \<and> LastReadTime b = now \<and> StartTime b = startTime
          \<and> BlockAt (AddBlock b (cachedBlocks s)) startTime = Some b
          \<and> (\<forall>t. ToUnixNano t \<noteq> ToUnixNano startTime \<longrightarrow>
                BlockAt (AddBlock b (cachedBlocks s)) t = BlockAt (cachedBlocks s) t)))"
  by (auto simp: OnRetrieveBlock_def addBlockWithLock_def ResetFromDisk_def SetLastReadTime_def
      SetOnEvictedFromWiredList_def AddBlock_def BlockAt_def Equal_def Let_def update_conv')

theorem OnRetrieveBlock_identity_guard_witness:
  "\<not> Equal ''mem'' (id_series (exampleSeries CacheLRU [] bootstrapped))
   \<and> OnRetrieveBlock (ToTime (1001 * hour)) (exampleBlock 0 False 0) ''mem'' [] (ToTime (998 * hour))
        ''bytes'' ''ns'' (exampleSeries CacheLRU [] bootstrapped)
      = (exampleSeries CacheLRU [] bootstrapped, [])
   \<and> Equal ''cpu'' (id_series (exampleSeries CacheLRU [] bootstrapped))
   \<and> OnRetrieveBlock (ToTime (1001 * hour)) (exampleBlock 0 False 0) ''cpu'' [] (ToTime (998 * hour))
        ''bytes'' ''ns'' (exampleSeries CacheLRU [] bootstrapped)
      = (exampleSeries CacheLRU
           [(998 * hour, (exampleBlock (998 * hour) True (1001 * hour))
                           \<lparr>segment := ''bytes'', onEvicted := Some 7\<rparr>)] bootstrapped,
         [WiredListBlockingUpdate
            ((exampleBlock (998 * hour) True (1001 * hour))\<lparr>segment := ''bytes'', onEvicted := Some 7\<rparr>)])"
  using OnRetrieveBlock_identity_guard [of "''mem''" "exampleSeries CacheLRU [] bootstrapped"
      "ToTime (1001 * hour)" "exampleBlock 0 False 0" "[]" "ToTime (998 * hour)" "''bytes''" "''ns''"]
    OnRetrieveBlock_identity_guard [of "''cpu''" "exampleSeries CacheLRU [] bootstrapped"
      "ToTime (1001 * hour)" "exampleBlock 0 False 0" "[]" "ToTime (998 * hour)" "''bytes''" "''ns''"]
  by (simp add: exampleSeries_def exampleOptions_def exampleBlock_def Equal_def AddBlock_def
      ToTime_def ToUnixNano_def hour_def)

text \<open>
  C9. OnEvictedFromWiredList with an id that does not match the series' identity, or for
  a start with no cached block, does nothing. With a matching id and a cached block at
  the start: a block marked retrieved from disk is removed from the Block Cache, the
  other entries stay and nothing is closed; for a block not so marked an invariant
  violation is logged, the series is unchanged and nothing is closed.
\<close>

theorem OnEvictedFromWiredList_removes_retrieved:
  "(\<not> Equal i (id_series s) \<longrightarrow> OnEvictedFromWiredList i blockStart s = (s, []))
   \<and> (Equal i (id_series s) \<longrightarrow>
      (case BlockAt (cachedBlocks s) blockStart of
         None \<Rightarrow> OnEvictedFromWiredList i blockStart s = (s, [])
       | Some b \<Rightarrow>
           (WasRetrievedFromDisk b \<longrightarrow>
              OnEvictedFromWiredList i blockStart s
                = (s\<lparr>cachedBlocks := RemoveBlockAt blockStart (cachedBlocks s)\<rparr>, [])
              \<and> BlockAt (RemoveBlockAt blockStart (cachedBlocks s)) blockStart = None
              \<and> (\<forall>t. ToUnixNano t \<noteq> ToUnixNano blockStart \<longrightarrow>
                    BlockAt (RemoveBlockAt blockStart (cachedBlocks s)) t = BlockAt (cachedBlocks s) t))
           \<and> (\<not> WasRetrievedFromDisk b \<longrightarrow>
              OnEvictedFromWiredList i blockStart s = (s, [InvariantViolationLogged i blockStart]))))"
  by (auto simp: OnEvictedFromWiredList_def BlockAt_def RemoveBlockAt_def delete_conv
      split: option.splits)

theorem OnEvictedFromWiredList_removes_retrieved_witness:
  "\<not> Equal ''mem'' (id_series (exampleSeries CacheLRU
        [(998 * hour, exampleBlock (998 * hour) True (999 * hour))] bootstrapped))
   \<and> OnEvictedFromWiredList ''mem'' (ToTime (998 * hour))
        (exampleSeries CacheLRU [(998 * hour, exampleBlock (998 * hour) True (999 * hour))] bootstrapped)
      = (exampleSeries CacheLRU [(998 * hour, exampleBlock (998 * hour) True (999 * hour))] bootstrapped, [])
   \<and> Equal ''cpu'' (id_series (exampleSeries CacheLRU
        [(998 * hour, exampleBlock (998 * hour) True (999 * hour))] bootstrapped))
   \<and> OnEvictedFromWiredList ''cpu'' (ToTime (998 * hour))
        (exampleSeries CacheLRU [(998 * hour, exampleBlock (998 * hour) True (999 * hour))] bootstrapped)
      = (exampleSeries CacheLRU [] bootstrapped, [])
   \<and> OnEvictedFromWiredList ''cpu'' (ToTime (998 * hour))
        (exampleSeries CacheLRU [(998 * hour, exampleBlock (998 * hour) False (999 * hour))] bootstrapped)
      = (exampleSeries CacheLRU [(998 * hour, exampleBlock (998 * hour) False (999 * hour))] bootstrapped,
         [InvariantViolationLogged ''cpu'' (ToTime (998 * hour))])"
  using OnEvictedFromWiredList_removes_retrieved [of "''mem''"
      "exampleSeries CacheLRU [(998 * hour, exampleBlock (998 * hour) True (999 * hour))] bootstrapped"
      "ToTime (998 * hour)"]
    OnEvictedFromWiredList_removes_retrieved [of "''cpu''"
      "exampleSeries CacheLRU [(998 * hour, exampleBlock (998 * hour) True (999 * hour))] bootstrapped"
      "ToTime (998 * hour)"]
    OnEvictedFromWiredList_removes_retrieved [of "''cpu''"
      "exampleSeries CacheLRU [(998 * hour, exampleBlock (998 * hour) False (999 * hour))] bootstrapped"
      "ToTime (998 * hour)"]
  by (simp add: exampleSeries_def exampleBlock_def Equal_def BlockAt_def RemoveBlockAt_def)

section \<open>The bootstrap state after bootstrap\<close>

text \<open>
  C10. After any call to bootstrap the series is bootstrapped: after a first call, a
  repeated call that returns \<open>errSeriesAlreadyBootstrapped\<close>, or a call with nil blocks. A
  first bootstrap with nil blocks returns no error and loads nothing, and WarmFlush and
  Snapshot on the series it leaves pass the bootstrap check: they return what the Write
  Buffer returns.
\<close>

theorem bootstrap_sets_bootstrapped:
  "bs (snd (bootstrap ops blocks states s)) = bootstrapped
   \<and> IsBootstrapped (snd (bootstrap ops blocks states s))
   \<and> (bs s = bootstrapNotStarted \<longrightarrow>
        bootstrap ops None states s = ((\<lparr>NumBlocksMovedToBuffer = 0\<rparr>, None), s\<lparr>bs := bootstrapped\<rparr>))
   \<and> fst (WarmFlush ops ctx blockStart persistFn nsCtx (snd (bootstrap ops None states s)))
       = fst (buffer_WarmFlush ops ctx blockStart (id_series s) (tags s) persistFn nsCtx (buffer s))
   \<and> fst (Snapshot_series ops ctx blockStart persistFn nsCtx (snd (bootstrap ops None states s)))
       = fst (buffer_Snapshot ops ctx blockStart (id_series s) (tags s) persistFn nsCtx (buffer s))"
proof -
  have st: "snd (bootstrap ops None states s) = s\<lparr>bs := bootstrapped\<rparr>"
    by (simp add: bootstrap_def Let_def)
  have "bs (snd (bootstrap ops blocks states s)) = bootstrapped"
    by (simp add: bootstrap_def Let_def split: option.splits)
  moreover have "bs s = bootstrapNotStarted \<longrightarrow>
        bootstrap ops None states s = ((\<lparr>NumBlocksMovedToBuffer = 0\<rparr>, None), s\<lparr>bs := bootstrapped\<rparr>)"
    by (simp add: bootstrap_def Let_def)
  ultimately show ?thesis
    unfolding st by (simp add: IsBootstrapped_def WarmFlush_def Snapshot_series_def split_def)
qed

theorem bootstrap_sets_bootstrapped_witness:
  "bs (exampleSeries CacheLRU [] bootstrapNotStarted) = bootstrapNotStarted
   \<and> bootstrap (stubBuffer [] 0) None \<lparr>Snapshot = Map.empty\<rparr> (exampleSeries CacheLRU [] bootstrapNotStarted)
       = ((\<lparr>NumBlocksMovedToBuffer = 0\<rparr>, None), exampleSeries CacheLRU [] bootstrapped)
   \<and> fst (WarmFlush (stubBuffer [] 0) 0 (ToTime (998 * hour)) (\<lambda>i tgs seg. None) ''ns''
        (snd (bootstrap (stubBuffer [] 0) None \<lparr>Snapshot = Map.empty\<rparr>
           (exampleSeries CacheLRU [] bootstrapNotStarted))))
       = (FlushOutcomeFlushedToDisk, None)"
proof -
  let ?s = "exampleSeries CacheLRU [] bootstrapNotStarted"
  have h: "bs ?s = bootstrapNotStarted"
    by (simp add: exampleSeries_def)
  have e: "?s\<lparr>bs := bootstrapped\<rparr> = exampleSeries CacheLRU [] bootstrapped"
    by (simp add: exampleSeries_def)
  have f: "fst (buffer_WarmFlush (stubBuffer [] 0) 0 (ToTime (998 * hour)) (id_series ?s) (tags ?s)
                 (\<lambda>i tgs seg. None) ''ns'' (buffer ?s)) = (FlushOutcomeFlushedToDisk, None)"
    by (simp add: exampleSeries_def stubBuffer_def)
  note T = bootstrap_sets_bootstrapped [of "stubBuffer [] 0" None "\<lparr>Snapshot = Map.empty\<rparr>" ?s
      0 "ToTime (998 * hour)" "\<lambda>i tgs seg. None" "''ns''"]
  from T h have b: "bootstrap (stubBuffer [] 0) None \<lparr>Snapshot = Map.empty\<rparr> ?s
       = ((\<lparr>NumBlocksMovedToBuffer = 0\<rparr>, None), ?s\<lparr>bs := bootstrapped\<rparr>)"
    by blast
  from T have w: "fst (WarmFlush (stubBuffer [] 0) 0 (ToTime (998 * hour)) (\<lambda>i tgs seg. None) ''ns''
        (snd (bootstrap (stubBuffer [] 0) None \<lparr>Snapshot = Map.empty\<rparr> ?s)))
       = fst (buffer_WarmFlush (stubBuffer [] 0) 0 (ToTime (998 * hour)) (id_series ?s) (tags ?s)
                 (\<lambda>i tgs seg. None) ''ns'' (buffer ?s))"
    by blast
  from h b [unfolded e] w [unfolded f] show ?thesis by blast
qed

end
